theory Spec2Isabelle
  imports Complex_Main "HOL-Library.Word" "HOL-Library.Log_Nat"
begin

section \<open>Bytes and buffers\<close>

text \<open>
  A \<open>Uint8Array\<close> or Node \<open>Buffer\<close> is a list of 8-bit words. Sizes and counters are
  JavaScript numbers that only ever hold small non-negative integers here, so they are \<open>nat\<close>.
\<close>

type_synonym byte = "8 word"
type_synonym bytes = "byte list"

section \<open>The framer of the network manager\<close>

text \<open>
  \<open>NetworkManager.padPacket\<close> and \<open>NetworkManager.removePacketPadding\<close> of the manager
  that verifies its peers: the framer with the length prefix. The earlier manager file has a
  \<open>padPacket\<close> without a prefix, which is not this framer and is not modelled.
\<close>

datatype framer_error = RangeError | TooShort | LengthExceedsData

definition PACKET_SIZE :: nat where
  "PACKET_SIZE = 256"

text \<open>The four bytes that \<open>writeUInt32BE\<close> stores, most significant byte first.\<close>

definition be32 :: "nat \<Rightarrow> bytes" where
  "be32 v = [of_nat (v div 16777216), of_nat (v div 65536), of_nat (v div 256), of_nat v]"

text \<open>\<open>buf.writeUInt32BE(v, 0)\<close> on a fresh 4-byte buffer; Node throws when \<open>v\<close> exceeds \<open>2^32 - 1\<close>.\<close>

definition writeUInt32BE :: "nat \<Rightarrow> framer_error + bytes" where
  "writeUInt32BE v = (if v > 4294967295 then Inl RangeError else Inr (be32 v))"

text \<open>\<open>data.readUInt32BE(off)\<close>; the callers check that four bytes are there.\<close>

definition readUInt32BE :: "bytes \<Rightarrow> nat \<Rightarrow> nat" where
  "readUInt32BE data off =
     unat (data ! off) * 16777216 + unat (data ! (off + 1)) * 65536
       + unat (data ! (off + 2)) * 256 + unat (data ! (off + 3))"

text \<open>\<open>Math.ceil(a / b)\<close>: the quotient is taken in the rationals and rounded up.\<close>

definition math_ceil_div :: "nat \<Rightarrow> nat \<Rightarrow> nat" where
  "math_ceil_div a b = nat \<lceil>(of_nat a :: rat) / of_nat b\<rceil>"

text \<open>
  \<open>Buffer.concat(list, totalLength)\<close>: the concatenation, cut at \<open>totalLength\<close> or filled
  with zeros up to it.
\<close>

definition buffer_concat :: "bytes list \<Rightarrow> nat \<Rightarrow> bytes" where
  "buffer_concat bufs totalLength = take totalLength (concat bufs @ replicate totalLength 0)"

text \<open>\<open>data.slice(start, fin)\<close> for \<open>start \<le> fin\<close>; a slice past the end is cut at the end.\<close>

definition buffer_slice :: "bytes \<Rightarrow> nat \<Rightarrow> nat \<Rightarrow> bytes" where
  "buffer_slice data start fin = take (fin - start) (drop start data)"

definition padPacket :: "bytes \<Rightarrow> framer_error + bytes" where
  "padPacket data =
     (case writeUInt32BE (length data) of
        Inl e \<Rightarrow> Inl e
      | Inr lengthBuffer \<Rightarrow>
          let totalLength = 4 + length data;
              paddedLength = math_ceil_div totalLength PACKET_SIZE * PACKET_SIZE;
              paddingLength = paddedLength - totalLength;
              padding = replicate paddingLength (0 :: byte)
          in Inr (buffer_concat [lengthBuffer, data, padding] paddedLength))"

definition removePacketPadding :: "bytes \<Rightarrow> framer_error + bytes" where
  "removePacketPadding data =
     (if length data < 4 then Inl TooShort
      else let len = readUInt32BE data 0
           in if len > length data - 4 then Inl LengthExceedsData
              else Inr (buffer_slice data 4 (4 + len)))"

section \<open>Inbound dispatch of the network manager\<close>

text \<open>
  The value that \<open>JSON.parse\<close> returns. An object lists its properties with unique names.
\<close>

datatype json =
    JNull
  | JBool bool
  | JNum rat
  | JStr string
  | JArr "json list"
  | JObj "(string \<times> json) list"

datatype js_error = TypeError

text \<open>
  Property access \<open>v.name\<close>: it throws on \<open>null\<close>, and is \<open>undefined\<close> (\<open>None\<close>) on a
  missing property and on the primitive values and arrays that reach it here.
\<close>

fun get_prop :: "json \<Rightarrow> string \<Rightarrow> js_error + json option" where
  "get_prop JNull name = Inl TypeError"
| "get_prop (JObj props) name = Inr (map_of props name)"
| "get_prop v name = Inr None"

text \<open>\<open>Array.from(u8)\<close>: the bytes as an array of numbers.\<close>

definition array_from :: "bytes \<Rightarrow> json" where
  "array_from bs = JArr (map (\<lambda>b. JNum (of_nat (unat b))) bs)"

text \<open>
  What the dispatch takes from its libraries: \<open>JSON.parse\<close> of the unpadded buffer's text
  (\<open>None\<close> when it throws), \<open>Buffer.from(JSON.stringify(v))\<close>, the conversion
  \<open>new Uint8Array(v)\<close> of a property that may be undefined, and libsodium's \<open>crypto_auth\<close>
  and \<open>crypto_auth_verify\<close> (\<open>None\<close> when they throw on malformed arguments).
\<close>

record net_prims =
  json_parse :: "bytes \<Rightarrow> json option"
  json_stringify :: "json \<Rightarrow> bytes"
  to_uint8array :: "json option \<Rightarrow> bytes"
  crypto_auth :: "bytes \<Rightarrow> bytes \<Rightarrow> bytes option"
  crypto_auth_verify :: "bytes \<Rightarrow> bytes \<Rightarrow> bytes \<Rightarrow> bool option"

text \<open>
  The fields of \<open>NetworkManager\<close> that the dispatch reads or writes. A socket is an object
  identity of type \<open>'sock\<close>; a timer handle is a number. \<open>reconnectTimer\<close> and
  \<open>connectionTimeout\<close> record whether a timer is armed.
\<close>

record 'sock network_manager =
  sockets :: "'sock set"
  verifiedPeers :: "'sock \<rightharpoonup> (int \<times> bytes)"
  pendingVerifications :: "'sock \<rightharpoonup> (bytes \<times> nat)"
  isConnected :: bool
  reconnectTimer :: bool
  connectionTimeout :: bool
  roomPSK :: bytes

text \<open>What a handler does to the outside: writes to a socket, calls the message callback, clears a timer.\<close>

datatype 'sock effect =
    SocketWrite 'sock bytes
  | OnMessage json
  | ClearTimeout nat

definition attemptReconnect :: "'sock network_manager \<Rightarrow> 'sock network_manager" where
  "attemptReconnect s = (if reconnectTimer s then s else s\<lparr>reconnectTimer := True\<rparr>)"

definition handlePeerDisconnect :: "'sock network_manager \<Rightarrow> 'sock \<Rightarrow> 'sock network_manager" where
  "handlePeerDisconnect s socket =
     (let s1 = s\<lparr>sockets := sockets s - {socket}\<rparr>;
          s2 = (if sockets s1 = {} then attemptReconnect (s1\<lparr>isConnected := False\<rparr>) else s1)
      in if connectionTimeout s2 then s2\<lparr>connectionTimeout := False\<rparr> else s2)"

text \<open>
  \<open>verifyPeer\<close>; \<open>now\<close> is \<open>Date.now()\<close>. Every exception inside is caught and answered
  with \<open>false\<close>, keeping the changes made before it.
\<close>

definition verifyPeer ::
  "net_prims \<Rightarrow> int \<Rightarrow> 'sock network_manager \<Rightarrow> 'sock \<Rightarrow> json option
     \<Rightarrow> bool \<times> 'sock effect list \<times> 'sock network_manager" where
  "verifyPeer P now s socket response =
     (case pendingVerifications s socket of
        None \<Rightarrow> (False, [], s)
      | Some (challenge, timeout) \<Rightarrow>
          let s1 = s\<lparr>pendingVerifications := (pendingVerifications s)(socket := None)\<rparr>;
              cleared = [ClearTimeout timeout]
          in (case crypto_auth_verify P (to_uint8array P response) challenge (roomPSK s1) of
                None \<Rightarrow> (False, cleared, s1)
              | Some False \<Rightarrow> (False, cleared, s1)
              | Some True \<Rightarrow>
                  let s2 = s1\<lparr>verifiedPeers := (verifiedPeers s1)(socket \<mapsto> (now, challenge)),
                              sockets := insert socket (sockets s1),
                              isConnected := True\<rparr>
                  in (case padPacket (json_stringify P
                             (JObj [(''type'', JStr ''verification_success''),
                                    (''timestamp'', JNum (of_int now))])) of
                        Inl e \<Rightarrow> (False, cleared, s2)
                      | Inr successMsg \<Rightarrow>
                          (True, cleared @ [SocketWrite socket successMsg], s2))))"

definition handleVerificationChallenge ::
  "net_prims \<Rightarrow> 'sock network_manager \<Rightarrow> 'sock \<Rightarrow> json option \<Rightarrow> 'sock effect list" where
  "handleVerificationChallenge P s socket challenge =
     (case crypto_auth P (to_uint8array P challenge) (roomPSK s) of
        None \<Rightarrow> []
      | Some response \<Rightarrow>
          (case padPacket (json_stringify P
                  (JObj [(''type'', JStr ''verification_response''),
                         (''response'', array_from response)])) of
             Inl e \<Rightarrow> []
           | Inr responseMsg \<Rightarrow> [SocketWrite socket responseMsg]))"

definition handleKeepAlive :: "net_prims \<Rightarrow> int \<Rightarrow> 'sock \<Rightarrow> 'sock effect list" where
  "handleKeepAlive P now socket =
     (case padPacket (json_stringify P
             (JObj [(''type'', JStr ''keepalive_ack''), (''timestamp'', JNum (of_int now))])) of
        Inl e \<Rightarrow> []
      | Inr response \<Rightarrow> [SocketWrite socket response])"

text \<open>
  \<open>handleIncomingData\<close>. The \<open>try\<close>/\<open>catch\<close> around the body turns an exception of the
  unframing, of \<open>JSON.parse\<close> or of reading \<open>message.type\<close> into a log line and nothing
  else. The continuation attached to \<open>verifyPeer\<close> runs before the next inbound frame.
\<close>

definition handleIncomingData ::
  "net_prims \<Rightarrow> int \<Rightarrow> 'sock network_manager \<Rightarrow> bytes \<Rightarrow> 'sock
     \<Rightarrow> 'sock effect list \<times> 'sock network_manager" where
  "handleIncomingData P now s data socket =
     (case removePacketPadding data of
        Inl e \<Rightarrow> ([], s)
      | Inr unpadded \<Rightarrow>
          (case json_parse P unpadded of
             None \<Rightarrow> ([], s)
           | Some message \<Rightarrow>
               (case get_prop message ''type'' of
                  Inl e \<Rightarrow> ([], s)
                | Inr ty \<Rightarrow>
                    if ty = Some (JStr ''verification_challenge'') then
                      (case get_prop message ''challenge'' of
                         Inl e \<Rightarrow> ([], s)
                       | Inr challenge \<Rightarrow> (handleVerificationChallenge P s socket challenge, s))
                    else if ty = Some (JStr ''verification_response'') then
                      (case get_prop message ''response'' of
                         Inl e \<Rightarrow> ([], s)
                       | Inr response \<Rightarrow>
                           (case verifyPeer P now s socket response of
                              (isValid, effects, s') \<Rightarrow>
                                if isValid then (effects, s')
                                else (effects, handlePeerDisconnect s' socket)))
                    else if socket \<notin> dom (verifiedPeers s) then ([], s)
                    else if ty = Some (JStr ''keepalive'') then (handleKeepAlive P now socket, s)
                    else ([OnMessage message], s))))"

text \<open>
  A concrete manager for running the dispatch: no peer is verified, and the parser stands
  for one that reads the frame's text as a keep-alive object.
\<close>

definition example_net_prims :: net_prims where
  "example_net_prims = \<lparr>
     json_parse = (\<lambda>bs. Some (JObj [(''type'', JStr ''keepalive'')])),
     json_stringify = (\<lambda>v. []),
     to_uint8array = (\<lambda>v. []),
     crypto_auth = (\<lambda>m k. Some m),
     crypto_auth_verify = (\<lambda>t m k. Some (t = m))\<rparr>"

definition example_manager :: "nat network_manager" where
  "example_manager = \<lparr>sockets = {}, verifiedPeers = Map.empty,
     pendingVerifications = Map.empty, isConnected = False, reconnectTimer = False,
     connectionTimeout = True, roomPSK = [1, 2]\<rparr>"

section \<open>The crypto worker: ratchet state, encryption and decryption\<close>

subsection \<open>The primitives adapter\<close>

text \<open>
  The plaintext message that \<open>encryptMessage\<close> builds and \<open>decryptMessage\<close> parses. The
  content is the string handed to \<open>seal\<close> or the byte array of a keep-alive. The timestamp is a
  JavaScript number with a fractional jitter, the counter a message count. \<open>dhKey\<close> is
  \<open>None\<close> when the parsed object has no such property.
\<close>

datatype content = Text string | Binary bytes

record message =
  content :: content
  timestamp :: rat
  counter :: nat
  dhKey :: "bytes option"

text \<open>
  The libsodium build that the worker imports is not part of the sources, and neither is the
  JSON codec of the runtime; both are parameters. Keys and nonces are byte arrays; the
  serialised message \<open>'w\<close>, the ciphertext \<open>'c\<close> and the signature \<open>'g\<close> are left
  open. Each function is named after the call it stands for; \<open>aead_decrypt\<close> and
  \<open>json_decode\<close> return \<open>None\<close> where the call throws. The argument order is that of
  the calls in the worker.
\<close>

record ('w, 'c, 'g) prims =
  kx_client_session_keys :: "bytes \<Rightarrow> bytes \<Rightarrow> bytes \<Rightarrow> bytes \<times> bytes"
  kdf_derive_from_key :: "nat \<Rightarrow> nat \<Rightarrow> string \<Rightarrow> bytes \<Rightarrow> bytes"
  aead_encrypt :: "'w \<Rightarrow> bytes \<Rightarrow> bytes \<Rightarrow> 'c"
  aead_decrypt :: "'c \<Rightarrow> bytes \<Rightarrow> bytes \<Rightarrow> 'w option"
  sign_detached :: "'c \<Rightarrow> bytes \<Rightarrow> 'g"
  sign_verify_detached :: "'g \<Rightarrow> 'c \<Rightarrow> bytes \<Rightarrow> bool"
  json_encode :: "message \<Rightarrow> 'w"
  json_decode :: "'w \<Rightarrow> message option"


definition aead_key_binding :: "('w, 'c, 'g) prims \<Rightarrow> bool" where
  "aead_key_binding P =
     (\<forall>m n k k'. k' \<noteq> k \<longrightarrow> aead_decrypt P (aead_encrypt P m n k) n k' = None)"

definition kdf_counter_injective :: "('w, 'c, 'g) prims \<Rightarrow> bool" where
  "kdf_counter_injective P =
     (\<forall>key c c'. kdf_derive_from_key P 32 c ''msg'' key = kdf_derive_from_key P 32 c' ''msg'' key
         \<longrightarrow> c = c')"

text \<open>
  Modelled from the spec: \<open>sodium.memcmp\<close> and \<open>sodium.memzero\<close> of the missing libsodium
  build are the adapter's constant-time equality and its secure zeroisation (overwriting with
  zeros); \<open>sodium.randombytes_buf(n)\<close> returns \<open>n\<close> bytes of the generator's output.
\<close>

definition memcmp :: "bytes \<Rightarrow> bytes \<Rightarrow> bool" where
  "memcmp a b = (a = b)"

definition randombytes_buf :: "nat \<Rightarrow> (nat \<Rightarrow> byte) \<Rightarrow> bytes" where
  "randombytes_buf n src = map src [0..<n]"

subsection \<open>Ratchet state over a store of key buffers\<close>

text \<open>
  Keys are \<open>Uint8Array\<close> objects that are overwritten in place, so the state holds a store
  of key buffers and the fields of the \<open>DoubleRatchet\<close> singleton hold references into it
  (\<open>None\<close> is \<open>null\<close>). A reference is the position of the buffer in \<open>heap\<close>; a new
  buffer goes to the end, and no buffer is ever removed. \<open>dhKeyPair\<close> holds the references of
  the public and of the private key. \<open>seenMessages\<close> holds the pairs whose text
  \<open>counter-timestamp\<close> the worker stores; the text determines the pair.
\<close>

type_synonym ref = nat

record ratchet =
  heap :: "bytes list"
  rootKey :: "ref option"
  sendingKey :: "ref option"
  receivingKey :: "ref option"
  dhKeyPair :: "(ref \<times> ref) option"
  remotePublicKey :: "ref option"
  messagesSent :: nat
  messagesReceived :: nat
  seenMessages :: "(nat \<times> rat) set"

datatype error =
    NullArgument
  | InvalidSignature
  | DecryptionFailed
  | SyntaxError
  | MessageReplayDetected

definition RATCHET_MESSAGES :: nat where
  "RATCHET_MESSAGES = 100"

definition JITTER_MAX :: rat where
  "JITTER_MAX = 250"

text \<open>The state of a fresh \<open>new DoubleRatchet()\<close>.\<close>

definition new_ratchet :: ratchet where
  "new_ratchet = \<lparr>heap = [], rootKey = None, sendingKey = None, receivingKey = None,
     dhKeyPair = None, remotePublicKey = None, messagesSent = 0, messagesReceived = 0,
     seenMessages = {}\<rparr>"

text \<open>A library call or \<open>new Uint8Array(\<dots>)\<close> that returns a new buffer with the given bytes.\<close>

definition new_buffer :: "bytes \<Rightarrow> ratchet \<Rightarrow> ref \<times> ratchet" where
  "new_buffer b s = (length (heap s), s\<lparr>heap := heap s @ [b]\<rparr>)"

text \<open>\<open>wipeKey\<close>: \<open>sodium.memzero\<close> overwrites every byte of the buffer with zero.\<close>

definition wipeKey :: "ref \<Rightarrow> ratchet \<Rightarrow> ratchet" where
  "wipeKey r s = s\<lparr>heap := (heap s)[r := replicate (length (heap s ! r)) 0]\<rparr>"

text \<open>
  A JavaScript number is an IEEE 754 double, and each of \<open>*\<close>, \<open>-\<close> and \<open>+\<close>
  returns the double nearest to the exact result, a tie going to the even significand. A
  non-zero \<open>x\<close> with \<open>2^e \<le> |x| < 2^(e+1)\<close> is rounded to a multiple of
  \<open>2^(e-52)\<close>, and of \<open>2^(-1074)\<close> in the subnormal range. The numbers that occur
  here are far below the largest double, so the overflow to infinity is left out.
\<close>

definition round_half_even :: "rat \<Rightarrow> int" where
  "round_half_even x =
     (let f = \<lfloor>x\<rfloor>; d = x - of_int f
      in if d < 1 / 2 then f else if 1 / 2 < d then f + 1 else if even f then f else f + 1)"

definition binade :: "rat \<Rightarrow> int" where
  "binade x =
     (let (p, q) = quotient_of \<bar>x\<bar>; k = bitlen p - bitlen q
      in if 2 powi k \<le> \<bar>x\<bar> then k else k - 1)"

definition round_to_double :: "rat \<Rightarrow> rat" where
  "round_to_double x =
     (if x = 0 then 0
      else let ulp = 2 powi (max (binade x) (- 1022) - 52)
           in of_int (round_half_even (x / ulp)) * ulp)"

text \<open>
  \<open>addJitter\<close>; \<open>r\<close> is the value of \<open>Math.random()\<close>, a double in \<open>[0, 1)\<close>, and
  \<open>ts\<close> that of \<open>Date.now()\<close>, an integer.
\<close>

definition addJitter :: "rat \<Rightarrow> rat \<Rightarrow> rat" where
  "addJitter ts r =
     (let jitter = round_to_double
                     (round_to_double (round_to_double (r * JITTER_MAX) * 2) - JITTER_MAX)
      in round_to_double (ts + jitter))"

text \<open>
  \<open>initialize\<close>; \<open>keyPair\<close> is the public and private key that
  \<open>sodium.crypto_kx_keypair()\<close> returns, \<open>preKeyBundle\<close> the peer's public key. It
  sets the key pair, the root key and both chain keys, and leaves the remote public key, the
  counters and the replay set as they are.
\<close>

definition initialize ::
  "('w, 'c, 'g) prims \<Rightarrow> bytes \<times> bytes \<Rightarrow> bytes \<Rightarrow> ratchet \<Rightarrow> ratchet" where
  "initialize P keyPair preKeyBundle s =
     (let (pubR, s1) = new_buffer (fst keyPair) s;
          (privR, s2) = new_buffer (snd keyPair) s1;
          s3 = s2\<lparr>dhKeyPair := Some (pubR, privR)\<rparr>;
          sharedSecret =
            kx_client_session_keys P (heap s3 ! pubR) (heap s3 ! privR) preKeyBundle;
          (rxR, s4) = new_buffer (fst sharedSecret) s3;
          (txR, s5) = new_buffer (snd sharedSecret) s4;
          s6 = s5\<lparr>rootKey := Some rxR\<rparr>;
          (skR, s7) = new_buffer (kdf_derive_from_key P 32 1 ''sending'' (heap s6 ! rxR)) s6;
          s8 = s7\<lparr>sendingKey := Some skR\<rparr>;
          (rkR, s9) = new_buffer (kdf_derive_from_key P 32 2 ''receiving'' (heap s8 ! rxR)) s8
      in s9\<lparr>receivingKey := Some rkR\<rparr>)"

text \<open>
  \<open>rotateRatchet\<close>; \<open>newDHPair\<close> is the public and private key that
  \<open>sodium.crypto_kx_keypair()\<close> returns. Without a remote public key the key agreement
  throws before any field is assigned. An exception does not undo what was done before it,
  so every operation returns the state next to its result.
\<close>

definition rotateRatchet ::
  "('w, 'c, 'g) prims \<Rightarrow> bytes \<times> bytes \<Rightarrow> ratchet \<Rightarrow> (error + unit) \<times> ratchet" where
  "rotateRatchet P newDHPair s =
     (let (pubR, s1) = new_buffer (fst newDHPair) s;
          (privR, s2) = new_buffer (snd newDHPair) s1
      in case remotePublicKey s2 of
           None \<Rightarrow> (Inl NullArgument, s2)
         | Some rp \<Rightarrow>
             let sharedSecret =
                   kx_client_session_keys P (heap s2 ! pubR) (heap s2 ! privR) (heap s2 ! rp);
                 (rxR, s3) = new_buffer (fst sharedSecret) s2;
                 (txR, s4) = new_buffer (snd sharedSecret) s3;
                 s5 = s4\<lparr>dhKeyPair := Some (pubR, privR), rootKey := Some rxR\<rparr>;
                 (skR, s6) = new_buffer (kdf_derive_from_key P 32 1 ''sending'' (heap s5 ! rxR)) s5;
                 s7 = s6\<lparr>sendingKey := Some skR\<rparr>;
                 (rkR, s8) = new_buffer (kdf_derive_from_key P 32 2 ''receiving'' (heap s7 ! rxR)) s7;
                 s9 = s8\<lparr>receivingKey := Some rkR\<rparr>
             in (Inr (), s9\<lparr>messagesSent := 0, messagesReceived := 0\<rparr>))"

text \<open>\<open>deriveMessageKey\<close>: the key argument is a buffer reference; \<open>null\<close> makes the call throw.\<close>

definition deriveMessageKey ::
  "('w, 'c, 'g) prims \<Rightarrow> ref option \<Rightarrow> nat \<Rightarrow> ratchet \<Rightarrow> (error + ref) \<times> ratchet" where
  "deriveMessageKey P key cnt s =
     (case key of
        None \<Rightarrow> (Inl NullArgument, s)
      | Some k \<Rightarrow>
          (case new_buffer (kdf_derive_from_key P 32 cnt ''msg'' (heap s ! k)) s of
             (mk, s') \<Rightarrow> (Inr mk, s')))"

record ('c, 'g) envelope =
  nonce :: bytes
  cipher :: 'c
  sig :: 'g

text \<open>
  What one call of \<open>encryptMessage\<close> draws from outside: the key pair that a rotation would
  generate, \<open>Date.now()\<close>, \<open>Math.random()\<close> and the generator output for the nonce.
\<close>

record entropy =
  kx_keypair :: "bytes \<times> bytes"
  date_now :: int
  math_random :: rat
  nonce_src :: "nat \<Rightarrow> byte"

definition NPUBBYTES :: nat where
  "NPUBBYTES = 24"

definition encryptMessage ::
  "('w, 'c, 'g) prims \<Rightarrow> entropy \<Rightarrow> ratchet \<Rightarrow> content \<Rightarrow> bool
     \<Rightarrow> (error + ('c, 'g) envelope) \<times> ratchet" where
  "encryptMessage P w s plaintext isKeepalive =
     (case (if \<not> isKeepalive \<and> messagesSent s \<ge> RATCHET_MESSAGES
            then rotateRatchet P (kx_keypair w) s else (Inr (), s)) of
        (Inl e, s1) \<Rightarrow> (Inl e, s1)
      | (Inr u, s1) \<Rightarrow>
          (case deriveMessageKey P (sendingKey s1) (messagesSent s1) s1 of
             (Inl e, s2) \<Rightarrow> (Inl e, s2)
           | (Inr messageKey, s2) \<Rightarrow>
               (case dhKeyPair s2 of
                  None \<Rightarrow> (Inl NullArgument, s2)
                | Some (pubR, privR) \<Rightarrow>
                    let msg = \<lparr>content = plaintext,
                               timestamp = addJitter (of_int (date_now w)) (math_random w),
                               counter = messagesSent s2,
                               dhKey = Some (heap s2 ! pubR)\<rparr>;
                        nonce = randombytes_buf NPUBBYTES (nonce_src w);
                        cipher = aead_encrypt P (json_encode P msg) nonce (heap s2 ! messageKey);
                        sig = sign_detached P cipher (heap s2 ! privR);
                        envelope = \<lparr>nonce = nonce, cipher = cipher, sig = sig\<rparr>;
                        s3 = (if \<not> isKeepalive
                              then s2\<lparr>messagesSent := messagesSent s2 + 1\<rparr> else s2)
                    in (Inr envelope, wipeKey messageKey s3))))"

text \<open>
  One tick of the interval that \<open>startKeepAlive\<close> installs: 32 random bytes are encrypted as
  a keep-alive. The result is posted as a \<open>keepalive\<close> message, an exception is logged.
\<close>

definition keepAliveTick ::
  "('w, 'c, 'g) prims \<Rightarrow> (nat \<Rightarrow> byte) \<Rightarrow> entropy \<Rightarrow> ratchet
     \<Rightarrow> (error + ('c, 'g) envelope) \<times> ratchet" where
  "keepAliveTick P dummy_src w s =
     (let dummy = randombytes_buf 32 dummy_src
      in encryptMessage P w s (Binary dummy) True)"

text \<open>
  \<open>decryptMessage\<close>; \<open>newDHPair\<close> is the key pair that a rotation would generate.
\<close>

definition decryptMessage ::
  "('w, 'c, 'g) prims \<Rightarrow> bytes \<times> bytes \<Rightarrow> ratchet \<Rightarrow> ('c, 'g) envelope
     \<Rightarrow> (error + content) \<times> ratchet" where
  "decryptMessage P newDHPair s envelope =
     (case remotePublicKey s of
        None \<Rightarrow> (Inl NullArgument, s)
      | Some rp \<Rightarrow>
          if \<not> sign_verify_detached P (sig envelope) (cipher envelope) (heap s ! rp)
          then (Inl InvalidSignature, s)
          else
            (case deriveMessageKey P (receivingKey s) (messagesReceived s) s of
               (Inl e, s1) \<Rightarrow> (Inl e, s1)
             | (Inr messageKey, s1) \<Rightarrow>
                 (case aead_decrypt P (cipher envelope) (nonce envelope) (heap s1 ! messageKey) of
                    None \<Rightarrow> (Inl DecryptionFailed, s1)
                  | Some plainBuf \<Rightarrow>
                      (case json_decode P plainBuf of
                         None \<Rightarrow> (Inl SyntaxError, s1)
                       | Some msg \<Rightarrow>
                           let messageId = (counter msg, timestamp msg)
                           in if messageId \<in> seenMessages s1
                              then (Inl MessageReplayDetected, s1)
                              else
                                let s2 = s1\<lparr>seenMessages := insert messageId (seenMessages s1)\<rparr>
                                in (case (case dhKey msg of
                                            None \<Rightarrow> (Inr (), s2)
                                          | Some d \<Rightarrow>
                                              if \<not> memcmp d (heap s2 ! rp)
                                              then (case new_buffer d s2 of
                                                      (nr, s') \<Rightarrow>
                                                        rotateRatchet P newDHPair
                                                          (s'\<lparr>remotePublicKey := Some nr\<rparr>))
                                              else (Inr (), s2)) of
                                      (Inl e, s3) \<Rightarrow> (Inl e, s3)
                                    | (Inr u, s3) \<Rightarrow>
                                        (Inr (content msg),
                                         wipeKey messageKey
                                           (s3\<lparr>messagesReceived := messagesReceived s3 + 1\<rparr>)))))))"

text \<open>The guarded wipe \<open>if (key) ratchet.wipeKey(key)\<close>.\<close>

definition wipe_opt :: "ref option \<Rightarrow> ratchet \<Rightarrow> ratchet" where
  "wipe_opt k s = (case k of None \<Rightarrow> s | Some r \<Rightarrow> wipeKey r s)"

text \<open>
  The \<open>cleanup\<close> operation of the worker (and its \<open>unload\<close> handler), with the three
  \<open>wipeKey\<close> calls it starts carried out in their order.
\<close>

definition cleanup :: "ratchet \<Rightarrow> ratchet" where
  "cleanup s =
     (let s1 = wipe_opt (rootKey s) s;
          s2 = wipe_opt (sendingKey s1) s1;
          s3 = wipe_opt (receivingKey s2) s2
      in s3)"

text \<open>The bytes of the buffer that a field refers to; \<open>None\<close> for \<open>null\<close> or a dangling reference.\<close>

definition deref :: "ratchet \<Rightarrow> ref option \<Rightarrow> bytes option" where
  "deref s r = (case r of None \<Rightarrow> None
                | Some i \<Rightarrow> if i < length (heap s) then Some (heap s ! i) else None)"

text \<open>
  No key field holds a dangling reference: every field that is not \<open>null\<close> refers to a
  buffer of the store.
\<close>

definition valid_refs :: "ratchet \<Rightarrow> bool" where
  "valid_refs s =
     ((case rootKey s of None \<Rightarrow> True | Some r \<Rightarrow> r < length (heap s))
      \<and> (case sendingKey s of None \<Rightarrow> True | Some r \<Rightarrow> r < length (heap s))
      \<and> (case receivingKey s of None \<Rightarrow> True | Some r \<Rightarrow> r < length (heap s))
      \<and> (case dhKeyPair s of None \<Rightarrow> True
          | Some (a, b) \<Rightarrow> a < length (heap s) \<and> b < length (heap s))
      \<and> (case remotePublicKey s of None \<Rightarrow> True | Some r \<Rightarrow> r < length (heap s)))"

text \<open>
  The states of the \<open>ratchet\<close> singleton in a run of the worker: it starts as a fresh
  \<open>DoubleRatchet\<close>, and the operations of the RPC handler and the keep-alive timer act on
  it. (The file operations \<open>sealFile\<close> and \<open>openFile\<close> repeat the bodies of
  \<open>encryptMessage\<close> and \<open>decryptMessage\<close> and assign the remote public key in the same
  place.)
\<close>

inductive reachable :: "('w, 'c, 'g) prims \<Rightarrow> ratchet \<Rightarrow> bool"
  for P :: "('w, 'c, 'g) prims" where
  constructed: "reachable P new_ratchet"
| initialized: "reachable P s \<Longrightarrow> reachable P (initialize P keyPair preKeyBundle s)"
| sealed: "reachable P s \<Longrightarrow> reachable P (snd (encryptMessage P w s plaintext isKeepalive))"
| opened: "reachable P s \<Longrightarrow> reachable P (snd (decryptMessage P newDHPair s envelope))"
| cleaned: "reachable P s \<Longrightarrow> reachable P (cleanup s)"

subsection \<open>A symbolic instance of the primitives, for concrete runs\<close>

text \<open>
  An idealised instance on which the operations can be run: a ciphertext records its key,
  nonce and plaintext and opens only under the same key and nonce; a signature records the
  signing key and the signed ciphertext; a key pair has equal halves; key derivation writes
  the subkey number in unary in front of the key, so different numbers give different keys.
\<close>

type_synonym sym_cipher = "bytes \<times> bytes \<times> message"
type_synonym sym_sig = "bytes \<times> sym_cipher"

definition sym_prims :: "(message, sym_cipher, sym_sig) prims" where
  "sym_prims = \<lparr>
     kx_client_session_keys = (\<lambda>pk sk rpk. (sk @ rpk, rpk @ sk)),
     kdf_derive_from_key = (\<lambda>len subkey ctx key. replicate subkey 1 @ 0 # of_nat (length ctx) # key),
     aead_encrypt = (\<lambda>m n k. (k, n, m)),
     aead_decrypt = (\<lambda>c n k. if fst c = k \<and> fst (snd c) = n then Some (snd (snd c)) else None),
     sign_detached = (\<lambda>c sk. (sk, c)),
     sign_verify_detached = (\<lambda>g c pk. fst g = pk \<and> snd g = c),
     json_encode = (\<lambda>m. m),
     json_decode = (\<lambda>w. Some w)\<rparr>"

text \<open>
  A concrete ratchet on that instance: root, sending and receiving key in buffers 0 to 2,
  the local key pair in buffers 3 and 4, the peer's public key in buffer 5.
\<close>

definition example_sender :: ratchet where
  "example_sender = \<lparr>heap = [[11], [1], [2], [9], [9], [5]], rootKey = Some 0,
     sendingKey = Some 1, receivingKey = Some 2, dhKeyPair = Some (3, 4),
     remotePublicKey = Some 5, messagesSent = 0, messagesReceived = 0, seenMessages = {}\<rparr>"

text \<open>
  A ratchet as \<open>initialize\<close> leaves it: a fresh ratchet initialised with the key pair
  \<open>([9], [9])\<close> against the peer key \<open>[5]\<close>.
\<close>

definition example_initialised :: ratchet where
  "example_initialised = initialize sym_prims ([9], [9]) [5] new_ratchet"

definition example_entropy :: entropy where
  "example_entropy = \<lparr>kx_keypair = ([7], [7]), date_now = 1000, math_random = 1 / 2,
     nonce_src = (\<lambda>i. 3)\<rparr>"

text \<open>
  The peer of \<open>example_sender\<close>: its receiving key is the sender's sending key, and the
  remote public key it stores is the sender's. The variants differ in one field each: both
  counters at 100, a replay set that already holds the pair \<open>(0, 1000)\<close>, and the receive
  counter advanced to 1.
\<close>

definition example_receiver :: ratchet where
  "example_receiver = \<lparr>heap = [[12], [2], [1], [5], [5], [9]], rootKey = Some 0,
     sendingKey = Some 1, receivingKey = Some 2, dhKeyPair = Some (3, 4),
     remotePublicKey = Some 5, messagesSent = 0, messagesReceived = 0, seenMessages = {}\<rparr>"

definition example_sender_100 :: ratchet where
  "example_sender_100 = example_sender\<lparr>messagesSent := 100\<rparr>"

definition example_receiver_100 :: ratchet where
  "example_receiver_100 = example_receiver\<lparr>messagesReceived := 100\<rparr>"


definition example_receiver_next :: ratchet where
  "example_receiver_next = example_receiver\<lparr>messagesReceived := 1\<rparr>"

text \<open>
  The envelope that \<open>example_sender\<close> produces for the text \<open>hi\<close> with
  \<open>example_entropy\<close> (\<open>example_envelope_encrypted\<close> below).
\<close>

definition example_envelope :: "(sym_cipher, sym_sig) envelope" where
  "example_envelope = \<lparr>nonce = replicate 24 3,
     cipher = ([0, 3, 1], replicate 24 3,
               \<lparr>content = Text ''hi'', timestamp = 1000, counter = 0, dhKey = Some [9]\<rparr>),
     sig = ([9], [0, 3, 1], replicate 24 3,
               \<lparr>content = Text ''hi'', timestamp = 1000, counter = 0, dhKey = Some [9]\<rparr>)\<rparr>"

section \<open>Properties of the framer\<close>

subsection \<open>Arithmetic of the padding\<close>

lemma math_ceil_div_nat:
  assumes b: "0 < b"
  shows "math_ceil_div a b = (a + b - 1) div b"
proof -
  define q where "q = (a + b - 1) div b"
  have up: "a + b - 1 < b + q * b"
    unfolding q_def using b by (rule dividend_less_div_times)
  have lo: "q * b \<le> a + b - 1"
    unfolding q_def by (rule div_times_less_eq_dividend)
  have 1: "a \<le> q * b" using up b by arith
  have 2: "q * b < a + b" using lo b by arith
  have r1: "(of_nat a :: rat) \<le> of_nat q * of_nat b"
    using 1 by (metis of_nat_le_iff of_nat_mult)
  have r2: "(of_nat q :: rat) * of_nat b < of_nat a + of_nat b"
    using 2 by (metis of_nat_less_iff of_nat_mult of_nat_add)
  have bpos: "(0 :: rat) < of_nat b" using b by simp
  have c1: "(of_nat a :: rat) / of_nat b \<le> of_int (int q)"
    using r1 bpos by (simp add: pos_divide_le_eq)
  have r3: "((of_nat q :: rat) - 1) * of_nat b < of_nat a"
    using r2 by (simp add: algebra_simps)
  have c2: "of_int (int q) - 1 < (of_nat a :: rat) / of_nat b"
    using r3 bpos by (simp add: pos_less_divide_eq)
  have "\<lceil>(of_nat a :: rat) / of_nat b\<rceil> = int q"
    using c2 c1 by (rule ceiling_unique)
  then show ?thesis by (simp add: math_ceil_div_def q_def)
qed

lemma ceil256: "(t + 255) div 256 = t div 256 + (if t mod 256 = 0 then 0 else (1::nat))"
proof -
  define d where "d = t div 256"
  define r where "r = t mod 256"
  have t: "t = d * 256 + r" and r: "r < 256" by (simp_all add: d_def r_def)
  have "(t + 255) div 256 = d + (r + 255) div 256"
    unfolding t by (simp add: add.assoc)
  moreover have "(r + 255) div 256 = (if r = 0 then 0 else 1)"
    using r by (auto simp: div_eq_0_iff intro: Euclidean_Rings.div_nat_eqI)
  moreover have "t div 256 = d" "t mod 256 = r" by (simp_all add: d_def r_def)
  ultimately show ?thesis by simp
qed

lemma padded_length:
  "math_ceil_div t PACKET_SIZE * PACKET_SIZE - t = (256 - t mod 256) mod 256"
  "t \<le> math_ceil_div t PACKET_SIZE * PACKET_SIZE"
proof -
  define d where "d = t div 256"
  define r where "r = t mod 256"
  have t: "t = d * 256 + r" and r: "r < 256" by (simp_all add: d_def r_def)
  have c: "math_ceil_div t PACKET_SIZE = d + (if r = 0 then 0 else 1)"
    using ceil256 [of t]
    by (simp add: math_ceil_div_nat PACKET_SIZE_def d_def r_def add.commute)
  show "math_ceil_div t PACKET_SIZE * PACKET_SIZE - t = (256 - t mod 256) mod 256"
    unfolding c using r by (simp add: PACKET_SIZE_def t)
  show "t \<le> math_ceil_div t PACKET_SIZE * PACKET_SIZE"
    unfolding c using r by (simp add: PACKET_SIZE_def t)
qed

lemma be32_digits:
  fixes n :: nat
  assumes "n < 4294967296"
  shows "(n div 16777216) mod 256 * 16777216 + (n div 65536) mod 256 * 65536
        + (n div 256) mod 256 * 256 + n mod 256 = n"
proof -
  define A where "A = n div 16777216"
  define B where "B = (n div 65536) mod 256"
  define C where "C = (n div 256) mod 256"
  define D where "D = n mod 256"
  have a: "A < 256" using assms by (simp add: A_def less_mult_imp_div_less)
  have e1: "n div 65536 div 256 = A"
    using div_mult2_eq [of n 65536 256] by (simp add: A_def)
  have e2: "n div 256 div 256 = n div 65536"
    using div_mult2_eq [of n 256 256] by simp
  have b: "n div 65536 = A * 256 + B"
    using div_mult_mod_eq [of "n div 65536" 256] unfolding e1 B_def by simp
  have c: "n div 256 = (A * 256 + B) * 256 + C"
    using div_mult_mod_eq [of "n div 256" 256] unfolding e2 b C_def by simp
  have d: "n = ((A * 256 + B) * 256 + C) * 256 + D"
    using div_mult_mod_eq [of n 256] unfolding c D_def by simp
  have "A mod 256 * 16777216 + B * 65536 + C * 256 + D = n"
    using a by (subst d) simp
  then show ?thesis by (simp only: A_def B_def C_def D_def)
qed

lemma unat_byte: "unat (of_nat k :: byte) = k mod 256"
  by (simp add: unat_of_nat)

lemma readUInt32BE_be32:
  assumes "n < 4294967296"
  shows "readUInt32BE (be32 n @ rest) 0 = n"
proof -
  have "readUInt32BE (be32 n @ rest) 0 =
      unat (of_nat (n div 16777216) :: byte) * 16777216
      + unat (of_nat (n div 65536) :: byte) * 65536
      + unat (of_nat (n div 256) :: byte) * 256 + unat (of_nat n :: byte)"
    unfolding readUInt32BE_def be32_def by simp
  also have "\<dots> = n"
    unfolding unat_byte by (rule be32_digits [OF assms])
  finally show ?thesis .
qed

lemma padPacket_ok:
  assumes "length data < 4294967296"
  shows "padPacket data =
    Inr (be32 (length data) @ data @ replicate ((256 - (4 + length data) mod 256) mod 256) 0)"
proof -
  define t where "t = 4 + length data"
  define p where "p = math_ceil_div t PACKET_SIZE * PACKET_SIZE"
  define k where "k = (256 - t mod 256) mod 256"
  have "p - t = k" "t \<le> p" unfolding p_def k_def by (rule padded_length)+
  then have p: "p = t + k" by simp
  have w: "writeUInt32BE (length data) = Inr (be32 (length data))"
    using assms by (simp add: writeUInt32BE_def)
  have len: "length (be32 (length data)) = 4" by (simp add: be32_def)
  have "padPacket data = Inr (buffer_concat [be32 (length data), data, replicate (p - t) 0] p)"
    by (simp add: padPacket_def w Let_def p_def t_def)
  also have "buffer_concat [be32 (length data), data, replicate (p - t) 0] p
      = be32 (length data) @ data @ replicate k 0"
    unfolding p by (simp add: buffer_concat_def len t_def)
  finally show ?thesis by (simp add: k_def t_def)
qed

lemma padPacket_too_long:
  "4294967296 \<le> length data \<Longrightarrow> padPacket data = Inl RangeError"
  by (simp add: padPacket_def writeUInt32BE_def)

lemma padPacket_length:
  assumes "padPacket data = Inr frame"
  shows "length frame mod 256 = 0"
proof (cases "length data < 4294967296")
  case True
  have "(4 + (length data + (256 - (4 + length data) mod 256) mod 256)) mod 256 = 0"
  proof -
    define t where "t = 4 + length data"
    have "t + (256 - t mod 256) mod 256 = math_ceil_div t PACKET_SIZE * PACKET_SIZE"
      using padded_length [of t] by simp
    then show ?thesis by (simp add: t_def PACKET_SIZE_def add.assoc)
  qed
  then show ?thesis
    using assms unfolding padPacket_ok [OF True] by (auto simp: be32_def)
next
  case False
  then show ?thesis using assms padPacket_too_long [of data] by simp
qed

lemma removePacketPadding_padPacket:
  assumes "length data < 4294967296"
  shows "\<exists>frame. padPacket data = Inr frame \<and> removePacketPadding frame = Inr data"
  using readUInt32BE_be32 [OF assms,
      of "data @ replicate ((256 - (4 + length data) mod 256) mod 256) 0"]
  by (simp add: padPacket_ok [OF assms] removePacketPadding_def Let_def buffer_slice_def be32_def)

subsection \<open>Claims about the framer\<close>

text \<open>
  C7. For every outbound payload (a buffer whose length fits the 32-bit prefix, as every
  UTF-8 encoded JSON text does), \<open>padPacket\<close> returns the 4-byte big-endian length of the
  payload, then the payload, then fewer than 256 zero bytes, and the frame's length is a
  multiple of 256. The prefix reads back as the payload's length. Every write of this
  manager to a socket sends a buffer that \<open>padPacket\<close> returned
  (\<open>handleIncomingData_writes_padded\<close> below, for the writes of the dispatch).
\<close>

theorem padPacket_frame_layout:
  assumes "length data < 4294967296"
  shows "padPacket data =
           Inr (be32 (length data) @ data
                  @ replicate ((256 - (4 + length data) mod 256) mod 256) 0)
       \<and> length (be32 (length data)) = 4
       \<and> readUInt32BE (be32 (length data)) 0 = length data
       \<and> (256 - (4 + length data) mod 256) mod 256 < 256
       \<and> length (be32 (length data) @ data
                  @ replicate ((256 - (4 + length data) mod 256) mod 256) 0) mod 256 = 0"
proof -
  let ?k = "(256 - (4 + length data) mod 256) mod 256"
  have ok: "padPacket data = Inr (be32 (length data) @ data @ replicate ?k 0)"
    by (rule padPacket_ok [OF assms])
  have len4: "length (be32 (length data)) = 4" by (simp add: be32_def)
  have rd: "readUInt32BE (be32 (length data)) 0 = length data"
    using readUInt32BE_be32 [OF assms, of "[]"] by simp
  have "(4 + (length data + ?k)) mod 256 = 0"
  proof -
    define t where "t = 4 + length data"
    have "t + (256 - t mod 256) mod 256 = math_ceil_div t PACKET_SIZE * PACKET_SIZE"
      using padded_length [of t] by simp
    then show ?thesis by (simp add: t_def PACKET_SIZE_def add.assoc)
  qed
  then have fr: "length (be32 (length data) @ data @ replicate ?k 0) mod 256 = 0"
    by (simp add: len4)
  show ?thesis using ok len4 rd fr by simp
qed

theorem padPacket_frame_layout_witness:
  "length [1, 2, 3 :: byte] < 4294967296
   \<and> padPacket [1, 2, 3] = Inr ([0, 0, 0, 3, 1, 2, 3] @ replicate 249 0)"
  using padPacket_frame_layout [of "[1, 2, 3]"] by (simp add: be32_def)

text \<open>
  C8. A frame shorter than four bytes, and a frame whose big-endian length prefix is larger
  than the number of bytes that follow it, is rejected with an error; no payload is returned.
\<close>

theorem removePacketPadding_rejects:
  "(length data < 4 \<longrightarrow> removePacketPadding data = Inl TooShort)
   \<and> (4 \<le> length data \<and> length data - 4 < readUInt32BE data 0
        \<longrightarrow> removePacketPadding data = Inl LengthExceedsData)"
  by (simp add: removePacketPadding_def Let_def)

theorem removePacketPadding_rejects_witness:
  "length [0, 0, 0, 5, 1, 2 :: byte] - 4 < readUInt32BE [0, 0, 0, 5, 1, 2] 0
   \<and> removePacketPadding [0, 0, 0, 5, 1, 2] = Inl LengthExceedsData
   \<and> removePacketPadding [0, 0, 1] = Inl TooShort"
  using removePacketPadding_rejects [of "[0, 0, 0, 5, 1, 2]"]
    removePacketPadding_rejects [of "[0, 0, 1]"]
  by (simp add: readUInt32BE_def)

subsection \<open>Claim about peer verification\<close>

text \<open>
  C6. On a socket that is not among the verified peers, a frame that decodes to a message
  whose type is neither \<open>verification_challenge\<close> nor \<open>verification_response\<close> has no
  effect at all: the message callback is not called, nothing is written to the socket (so no
  \<open>keepalive_ack\<close> either), and the manager's state is unchanged.
\<close>

theorem unverified_frames_dropped:
  assumes "socket \<notin> dom (verifiedPeers s)"
    and "removePacketPadding data = Inr unpadded"
    and "json_parse P unpadded = Some message"
    and "get_prop message ''type'' = Inr ty"
    and "ty \<noteq> Some (JStr ''verification_challenge'')"
    and "ty \<noteq> Some (JStr ''verification_response'')"
  shows "handleIncomingData P now s data socket = ([], s)"
  using assms by (simp add: handleIncomingData_def)

theorem unverified_frames_dropped_witness:
  "removePacketPadding [0, 0, 0, 0] = Inr []
   \<and> json_parse example_net_prims [] = Some (JObj [(''type'', JStr ''keepalive'')])
   \<and> get_prop (JObj [(''type'', JStr ''keepalive'')]) ''type'' = Inr (Some (JStr ''keepalive''))
   \<and> handleIncomingData example_net_prims 0 example_manager [0, 0, 0, 0] (1 :: nat)
         = ([], example_manager)"
  using unverified_frames_dropped [of 1 example_manager "[0, 0, 0, 0]" "[]" example_net_prims
      "JObj [(''type'', JStr ''keepalive'')]" "Some (JStr ''keepalive'')" 0]
  by (simp add: removePacketPadding_def readUInt32BE_def buffer_slice_def Let_def
      example_net_prims_def example_manager_def)

text \<open>
  For contrast: a frame that does not unframe or parse has no effect on any socket, and on a
  verified socket a keep-alive is answered and any other message reaches the callback.
\<close>

lemma undecodable_frames_dropped:
  assumes "removePacketPadding data = Inl e
           \<or> (\<exists>u. removePacketPadding data = Inr u \<and> json_parse P u = None)"
  shows "handleIncomingData P now s data socket = ([], s)"
  using assms by (auto simp: handleIncomingData_def)

lemma verified_frames_dispatched:
  assumes "socket \<in> dom (verifiedPeers s)"
    and "removePacketPadding data = Inr unpadded"
    and "json_parse P unpadded = Some message"
    and "get_prop message ''type'' = Inr ty"
    and "ty \<noteq> Some (JStr ''verification_challenge'')"
    and "ty \<noteq> Some (JStr ''verification_response'')"
  shows "handleIncomingData P now s data socket =
           (if ty = Some (JStr ''keepalive'') then (handleKeepAlive P now socket, s)
            else ([OnMessage message], s))"
  using assms by (auto simp: handleIncomingData_def)

text \<open>
  Whatever the dispatch writes to a socket is a frame that \<open>padPacket\<close> returned, so its
  length is a multiple of 256.
\<close>

lemma handleIncomingData_writes_padded:
  assumes "SocketWrite sock frame \<in> set (fst (handleIncomingData P now s data socket))"
  shows "length frame mod 256 = 0"
  using assms
  by (auto simp: handleIncomingData_def handleVerificationChallenge_def verifyPeer_def
      handleKeepAlive_def Let_def padPacket_length
      split: sum.splits option.splits if_splits prod.splits bool.splits)


section \<open>Properties of the ratchet\<close>

subsection \<open>Running and unfolding the operations\<close>

lemma randombytes_buf_const: "randombytes_buf n (\<lambda>i. c) = replicate n c"
  by (simp add: randombytes_buf_def map_replicate_const)

lemma addJitter_example: "addJitter 1000 (1 / 2) = 1000"
  by code_simp

lemmas run_defs =
  example_sender_def example_receiver_def example_entropy_def example_envelope_def
  sym_prims_def encryptMessage_def decryptMessage_def rotateRatchet_def deriveMessageKey_def
  new_buffer_def wipeKey_def deref_def memcmp_def RATCHET_MESSAGES_def Let_def
  randombytes_buf_const NPUBBYTES_def addJitter_example

lemma example_envelope_encrypted:
  "fst (encryptMessage sym_prims example_entropy example_sender (Text ''hi'') False)
     = Inr example_envelope"
  by (simp add: run_defs)


lemma sym_prims_aead_key_binding: "aead_key_binding sym_prims"
  by (simp add: aead_key_binding_def sym_prims_def)

lemma deriveMessageKey_Some:
  "deriveMessageKey P (Some k) c s =
     (Inr (length (heap s)), s\<lparr>heap := heap s @ [kdf_derive_from_key P 32 c ''msg'' (heap s ! k)]\<rparr>)"
  by (simp add: deriveMessageKey_def new_buffer_def)

lemma deriveMessageKey_None: "deriveMessageKey P None c s = (Inl NullArgument, s)"
  by (simp add: deriveMessageKey_def)

lemma rotateRatchet_known_remote:
  assumes "remotePublicKey s = Some rp" and "rp < length (heap s)"
  shows "rotateRatchet P (pub, priv) s =
    (let n = length (heap s);
         sharedSecret = kx_client_session_keys P pub priv (heap s ! rp);
         rx = fst sharedSecret;
         sk = kdf_derive_from_key P 32 1 ''sending'' rx;
         rk = kdf_derive_from_key P 32 2 ''receiving'' rx
     in (Inr (), s\<lparr>heap := heap s @ [pub, priv, rx, snd sharedSecret, sk, rk],
                    rootKey := Some (n + 2), sendingKey := Some (n + 4),
                    receivingKey := Some (n + 5), dhKeyPair := Some (n, n + 1),
                    messagesSent := 0, messagesReceived := 0\<rparr>))"
  using assms
  by (simp add: rotateRatchet_def new_buffer_def Let_def nth_append)

lemma rotateRatchet_no_remote:
  assumes "remotePublicKey s = None"
  shows "rotateRatchet P (pub, priv) s = (Inl NullArgument, s\<lparr>heap := heap s @ [pub, priv]\<rparr>)"
  using assms by (simp add: rotateRatchet_def new_buffer_def Let_def)

lemma rotateRatchet_keeps_buffers:
  "take (length (heap s)) (heap (snd (rotateRatchet P kp s))) = heap s"
  by (cases kp) (simp add: rotateRatchet_def new_buffer_def Let_def split: option.split)

lemma rotateRatchet_keeps_seen:
  "seenMessages (snd (rotateRatchet P kp s)) = seenMessages s"
  by (cases kp) (simp add: rotateRatchet_def new_buffer_def Let_def split: option.split)

lemma wipeKey_fields [simp]:
  "rootKey (wipeKey r s) = rootKey s" "sendingKey (wipeKey r s) = sendingKey s"
  "receivingKey (wipeKey r s) = receivingKey s" "dhKeyPair (wipeKey r s) = dhKeyPair s"
  "remotePublicKey (wipeKey r s) = remotePublicKey s"
  "messagesSent (wipeKey r s) = messagesSent s"
  "messagesReceived (wipeKey r s) = messagesReceived s"
  "seenMessages (wipeKey r s) = seenMessages s"
  "length (heap (wipeKey r s)) = length (heap s)"
  by (simp_all add: wipeKey_def)

lemma wipeKey_same:
  "r < length (heap s) \<Longrightarrow> heap (wipeKey r s) ! r = replicate (length (heap s ! r)) 0"
  by (simp add: wipeKey_def)

lemma wipeKey_other: "i \<noteq> r \<Longrightarrow> heap (wipeKey r s) ! i = heap s ! i"
  by (simp add: wipeKey_def)

lemma wipeKey_zero_stays:
  "heap s ! i = replicate n 0 \<Longrightarrow> length (heap s ! i) = n \<Longrightarrow> i < length (heap s)
     \<Longrightarrow> heap (wipeKey r s) ! i = replicate n 0"
  by (cases "i = r") (simp_all add: wipeKey_def)

lemma wipeKey_buf_length: "length (heap (wipeKey r s) ! i) = length (heap s ! i)"
  by (cases "r < length (heap s)"; cases "i = r") (simp_all add: wipeKey_def list_update_beyond)

lemma wipeKey_keeps_zero:
  assumes "heap s ! i = replicate n 0"
  shows "heap (wipeKey r s) ! i = replicate n 0"
proof (cases "i = r \<and> r < length (heap s)")
  case True
  then show ?thesis using assms by (simp add: wipeKey_def)
next
  case False
  then have "heap (wipeKey r s) ! i = heap s ! i"
    by (cases "i = r") (simp_all add: wipeKey_def list_update_beyond)
  then show ?thesis using assms by simp
qed

lemma wipe_opt_keeps_zero:
  "heap s ! i = replicate n 0 \<Longrightarrow> heap (wipe_opt k s) ! i = replicate n 0"
  by (cases k) (simp_all add: wipe_opt_def wipeKey_keeps_zero)

lemma wipe_opt_buf_length: "length (heap (wipe_opt k s) ! i) = length (heap s ! i)"
  by (cases k) (simp_all add: wipe_opt_def wipeKey_buf_length)

lemma wipe_opt_heap_length: "length (heap (wipe_opt k s)) = length (heap s)"
  by (cases k) (simp_all add: wipe_opt_def)

lemma wipe_opt_zeroes:
  "r < length (heap s) \<Longrightarrow> heap (wipe_opt (Some r) s) ! r = replicate (length (heap s ! r)) 0"
  by (simp add: wipe_opt_def wipeKey_same)

lemma wipe_opt_fields [simp]:
  "rootKey (wipe_opt k s) = rootKey s" "sendingKey (wipe_opt k s) = sendingKey s"
  "receivingKey (wipe_opt k s) = receivingKey s" "dhKeyPair (wipe_opt k s) = dhKeyPair s"
  by (cases k; simp add: wipe_opt_def)+

lemma cleanup_wipe_opt:
  "cleanup s = wipe_opt (receivingKey s) (wipe_opt (sendingKey s) (wipe_opt (rootKey s) s))"
  by (simp add: cleanup_def Let_def)

lemma cleanup_zeroes_keys:
  assumes k: "k \<in> {rootKey s, sendingKey s, receivingKey s}" and r: "k = Some r"
    and len: "r < length (heap s)"
  shows "heap (cleanup s) ! r = replicate (length (heap s ! r)) 0"
proof -
  let ?n = "length (heap s ! r)"
  let ?s1 = "wipe_opt (rootKey s) s"
  let ?s2 = "wipe_opt (sendingKey s) ?s1"
  consider "rootKey s = Some r" | "sendingKey s = Some r" | "receivingKey s = Some r"
    using k r by auto
  then show ?thesis
  proof cases
    case 1
    then have "heap ?s1 ! r = replicate ?n 0" using len by (simp add: wipe_opt_zeroes)
    then show ?thesis by (simp add: cleanup_wipe_opt wipe_opt_keeps_zero)
  next
    case 2
    have "r < length (heap ?s1)" using len by (simp add: wipe_opt_heap_length)
    then have "heap ?s2 ! r = replicate (length (heap ?s1 ! r)) 0"
      using 2 by (simp add: wipe_opt_zeroes)
    then have "heap ?s2 ! r = replicate ?n 0" by (simp add: wipe_opt_buf_length)
    then show ?thesis by (simp add: cleanup_wipe_opt wipe_opt_keeps_zero)
  next
    case 3
    have "r < length (heap ?s2)" using len by (simp add: wipe_opt_heap_length)
    then have "heap (wipe_opt (Some r) ?s2) ! r = replicate (length (heap ?s2 ! r)) 0"
      by (rule wipe_opt_zeroes)
    then show ?thesis using 3 by (simp add: cleanup_wipe_opt wipe_opt_buf_length)
  qed
qed

lemma cleanup_keeps_other_buffers:
  assumes "Some r \<notin> {rootKey s, sendingKey s, receivingKey s}"
  shows "heap (cleanup s) ! r = heap s ! r"
  using assms
  by (auto simp: cleanup_def wipe_opt_def wipeKey_def Let_def nth_list_update
      split: option.split)

lemma cleanup_keeps_fields:
  "rootKey (cleanup s) = rootKey s" "sendingKey (cleanup s) = sendingKey s"
  "receivingKey (cleanup s) = receivingKey s" "dhKeyPair (cleanup s) = dhKeyPair s"
  by (simp_all add: cleanup_wipe_opt)


lemma encryptMessage_no_rotation:
  assumes "ka \<or> messagesSent s < RATCHET_MESSAGES"
    and "sendingKey s = Some sk" and "dhKeyPair s = Some (pubR, privR)"
    and "pubR < length (heap s)" and "privR < length (heap s)"
  shows "encryptMessage P w s p ka =
    (let mk = kdf_derive_from_key P 32 (messagesSent s) ''msg'' (heap s ! sk);
         n = randombytes_buf NPUBBYTES (nonce_src w);
         c = aead_encrypt P
               (json_encode P \<lparr>content = p,
                   timestamp = addJitter (of_int (date_now w)) (math_random w),
                   counter = messagesSent s, dhKey = Some (heap s ! pubR)\<rparr>) n mk
     in (Inr \<lparr>nonce = n, cipher = c, sig = sign_detached P c (heap s ! privR)\<rparr>,
         s\<lparr>heap := heap s @ [replicate (length mk) 0],
           messagesSent := (if ka then messagesSent s else messagesSent s + 1)\<rparr>))"
  using assms
  by (auto simp: encryptMessage_def deriveMessageKey_Some wipeKey_def Let_def nth_append)


lemma rotateRatchet_seen_eq:
  "rotateRatchet P kp s = (res, s') \<Longrightarrow> seenMessages s' = seenMessages s"
  using rotateRatchet_keeps_seen [of P kp s] by simp

lemma encryptMessage_keeps_seen:
  "seenMessages (snd (encryptMessage P w s p ka)) = seenMessages s"
  by (cases "kx_keypair w")
     (auto simp: encryptMessage_def deriveMessageKey_def new_buffer_def Let_def
        split: option.split prod.split sum.split dest: rotateRatchet_seen_eq)

lemma decryptMessage_grows_seen:
  "seenMessages s \<subseteq> seenMessages (snd (decryptMessage P kp s e))"
  by (auto simp: decryptMessage_def deriveMessageKey_def new_buffer_def Let_def
      split: option.splits if_splits prod.splits sum.splits dest: rotateRatchet_seen_eq)

lemma cleanup_keeps_seen: "seenMessages (cleanup s) = seenMessages s"
  by (simp add: cleanup_def wipe_opt_def Let_def split: option.split)

lemma initialize_keeps_seen: "seenMessages (initialize P kp pkb s) = seenMessages s"
  by (simp add: initialize_def new_buffer_def Let_def)

text \<open>
  A non-keep-alive \<open>encryptMessage\<close> at a send counter of 100 or more, with a remote public
  key in the store; and what every successful \<open>encryptMessage\<close> has sealed, in terms of
  the state it leaves.
\<close>

lemma encryptMessage_rotation:
  assumes "remotePublicKey s = Some rp" and "rp < length (heap s)"
    and "RATCHET_MESSAGES \<le> messagesSent s"
  shows "encryptMessage P w s p False =
    (let pub = fst (kx_keypair w); priv = snd (kx_keypair w);
         sharedSecret = kx_client_session_keys P pub priv (heap s ! rp);
         rx = fst sharedSecret;
         sk = kdf_derive_from_key P 32 1 ''sending'' rx;
         rk = kdf_derive_from_key P 32 2 ''receiving'' rx;
         mk = kdf_derive_from_key P 32 0 ''msg'' sk;
         n = randombytes_buf NPUBBYTES (nonce_src w);
         c = aead_encrypt P
               (json_encode P \<lparr>content = p,
                   timestamp = addJitter (of_int (date_now w)) (math_random w),
                   counter = 0, dhKey = Some pub\<rparr>) n mk
     in (Inr \<lparr>nonce = n, cipher = c, sig = sign_detached P c priv\<rparr>,
         s\<lparr>heap := heap s @ [pub, priv, rx, snd sharedSecret, sk, rk, replicate (length mk) 0],
           rootKey := Some (length (heap s) + 2), sendingKey := Some (length (heap s) + 4),
           receivingKey := Some (length (heap s) + 5),
           dhKeyPair := Some (length (heap s), length (heap s) + 1),
           messagesSent := 1, messagesReceived := 0\<rparr>))"
proof -
  obtain pub priv where kp: "kx_keypair w = (pub, priv)" by (cases "kx_keypair w")
  show ?thesis
    using assms
    by (simp add: encryptMessage_def kp rotateRatchet_known_remote [OF assms(1,2)]
        deriveMessageKey_Some wipeKey_def Let_def nth_append list_update_append)
qed

lemma encryptMessage_sealed:
  assumes enc: "encryptMessage P w s p ka = (Inr env, s')" and wf: "valid_refs s"
  shows "\<exists>sk pubR privR. sendingKey s' = Some sk \<and> dhKeyPair s' = Some (pubR, privR) \<and>
     env = (let cnt = (if ka then messagesSent s' else messagesSent s' - 1);
                n = randombytes_buf NPUBBYTES (nonce_src w);
                c = aead_encrypt P
                      (json_encode P \<lparr>content = p,
                          timestamp = addJitter (of_int (date_now w)) (math_random w),
                          counter = cnt, dhKey = Some (heap s' ! pubR)\<rparr>)
                      n (kdf_derive_from_key P 32 cnt ''msg'' (heap s' ! sk))
            in \<lparr>nonce = n, cipher = c, sig = sign_detached P c (heap s' ! privR)\<rparr>)"
proof (cases "\<not> ka \<and> RATCHET_MESSAGES \<le> messagesSent s")
  case True
  then have ka: "ka = False" and c: "RATCHET_MESSAGES \<le> messagesSent s" by simp_all
  have "remotePublicKey s \<noteq> None"
  proof
    assume "remotePublicKey s = None"
    from rotateRatchet_no_remote [OF this, of P "fst (kx_keypair w)" "snd (kx_keypair w)"]
    show False using enc c ka by (simp add: encryptMessage_def)
  qed
  then obtain rp where rp: "remotePublicKey s = Some rp" by auto
  then have rpl: "rp < length (heap s)" using wf by (simp add: valid_refs_def)
  show ?thesis
    using enc unfolding ka encryptMessage_rotation [OF rp rpl c]
    by (auto simp: Let_def nth_append)
next
  case False
  then have nr: "ka \<or> messagesSent s < RATCHET_MESSAGES" by auto
  have "sendingKey s \<noteq> None"
  proof
    assume "sendingKey s = None"
    then show False using enc nr by (auto simp: encryptMessage_def deriveMessageKey_None)
  qed
  then obtain sk where sk: "sendingKey s = Some sk" by auto
  have "dhKeyPair s \<noteq> None"
  proof
    assume "dhKeyPair s = None"
    then show False using enc nr sk by (auto simp: encryptMessage_def deriveMessageKey_Some)
  qed
  then obtain pubR privR where kp: "dhKeyPair s = Some (pubR, privR)" by auto
  have b: "sk < length (heap s)" "pubR < length (heap s)" "privR < length (heap s)"
    using wf sk kp by (simp_all add: valid_refs_def)
  show ?thesis
    using enc unfolding encryptMessage_no_rotation [OF nr sk kp b(2,3)]
    using sk kp b by (auto simp: Let_def nth_append)
qed


lemma encryptMessage_succeeds:
  assumes "sendingKey s = Some sk" and "dhKeyPair s = Some (pubR, privR)"
    and "remotePublicKey s = Some rp" and "rp < length (heap s)"
  shows "\<exists>env s'. encryptMessage P w s p ka = (Inr env, s')"
proof (cases "\<not> ka \<and> RATCHET_MESSAGES \<le> messagesSent s")
  case True
  then show ?thesis
    using encryptMessage_rotation [OF assms(3,4), of P w p] by (simp add: Let_def)
next
  case False
  then show ?thesis
    using assms(1,2)
    by (auto simp: encryptMessage_def deriveMessageKey_Some Let_def)
qed

subsection \<open>The states a run of the worker reaches\<close>

text \<open>
  No operation of the worker stores a remote public key: the constructor sets the field to
  \<open>null\<close>, \<open>initialize\<close> does not assign it, and \<open>decryptMessage\<close> assigns it only
  after the signature check, which throws on \<open>null\<close>. So in a run of the worker every
  rotation throws at the key agreement, before any field is assigned; every
  \<open>decryptMessage\<close> throws at the signature check; and a non-keep-alive
  \<open>encryptMessage\<close> throws once the send counter has reached 100. The statements below
  about completed rotations and accepted envelopes are about ratchet states with a stored
  remote public key, which the claims presuppose.
\<close>

lemma initialize_remote: "remotePublicKey (initialize P kp pkb s) = remotePublicKey s"
  by (simp add: initialize_def new_buffer_def Let_def)

lemma cleanup_remote: "remotePublicKey (cleanup s) = remotePublicKey s"
  by (simp add: cleanup_def wipe_opt_def Let_def split: option.split)

lemma encryptMessage_no_remote:
  assumes "remotePublicKey s = None"
  shows "remotePublicKey (snd (encryptMessage P w s p ka)) = None"
  using assms
  by (cases "kx_keypair w")
     (auto simp: encryptMessage_def rotateRatchet_no_remote deriveMessageKey_def new_buffer_def
        Let_def split: option.split prod.split)

lemma decryptMessage_no_remote:
  assumes "remotePublicKey s = None"
  shows "decryptMessage P kp s e = (Inl NullArgument, s)"
  using assms by (simp add: decryptMessage_def)

lemma reachable_no_remote_key:
  assumes "reachable P s"
  shows "remotePublicKey s = None"
  using assms
proof induction
  case constructed
  show ?case by (simp add: new_ratchet_def)
next
  case (initialized s keyPair preKeyBundle)
  then show ?case by (simp add: initialize_remote)
next
  case (sealed s w plaintext isKeepalive)
  then show ?case by (simp add: encryptMessage_no_remote)
next
  case (opened s newDHPair envelope)
  then show ?case by (simp add: decryptMessage_no_remote)
next
  case (cleaned s)
  then show ?case by (simp add: cleanup_remote)
qed

lemma reachable_rotateRatchet_throws:
  assumes "reachable P s"
  shows "fst (rotateRatchet P kp s) = Inl NullArgument"
  using rotateRatchet_no_remote [OF reachable_no_remote_key [OF assms], of P "fst kp" "snd kp"]
  by simp

lemma reachable_decryptMessage_throws:
  assumes "reachable P s"
  shows "decryptMessage P kp s e = (Inl NullArgument, s)"
  by (rule decryptMessage_no_remote [OF reachable_no_remote_key [OF assms]])

lemma reachable_encryptMessage_throws:
  assumes "reachable P s" and "RATCHET_MESSAGES \<le> messagesSent s"
  shows "fst (encryptMessage P w s p False) = Inl NullArgument"
  using assms(2)
    rotateRatchet_no_remote [OF reachable_no_remote_key [OF assms(1)],
      of P "fst (kx_keypair w)" "snd (kx_keypair w)"]
  by (simp add: encryptMessage_def)

subsection \<open>Claims about wiping\<close>




text \<open>
  C5 (after \<open>cleanup\<close> the root key, both chain keys and the private key of the local
  key pair read as zeros) holds for the first three and not for the private key:
  \<open>cleanup\<close> wipes the root key and the chain keys (\<open>cleanup_zeroes_keys\<close>) and
  touches no other buffer (\<open>cleanup_keeps_other_buffers\<close>). On a freshly initialised
  ratchet the root key and the chain keys read as zeros after \<open>cleanup\<close>, and the
  private key still reads \<open>[9]\<close>.
\<close>

theorem cleanup_leaves_private_key:
  "deref example_initialised (map_option snd (dhKeyPair example_initialised)) = Some [9]
   \<and> deref (cleanup example_initialised) (rootKey (cleanup example_initialised))
       = Some (replicate 2 0)
   \<and> deref (cleanup example_initialised) (sendingKey (cleanup example_initialised))
       = Some (replicate 5 0)
   \<and> deref (cleanup example_initialised) (receivingKey (cleanup example_initialised))
       = Some (replicate 6 0)
   \<and> deref (cleanup example_initialised)
         (map_option snd (dhKeyPair (cleanup example_initialised))) = Some [9]"
  by (simp add: example_initialised_def initialize_def new_ratchet_def new_buffer_def
      sym_prims_def cleanup_def wipe_opt_def wipeKey_def Let_def deref_def eval_nat_numeral)

subsection \<open>Keep-alive encryption\<close>

lemma encryptMessage_keepalive_frame:
  "snd (encryptMessage P w s p True) = s\<lparr>heap := heap (snd (encryptMessage P w s p True))\<rparr>
   \<and> take (length (heap s)) (heap (snd (encryptMessage P w s p True))) = heap s
   \<and> length (heap (snd (encryptMessage P w s p True))) \<le> length (heap s) + 1"
  by (cases "sendingKey s"; cases "dhKeyPair s")
     (auto simp: encryptMessage_def deriveMessageKey_def new_buffer_def wipeKey_def Let_def)

lemma encryptMessage_keepalive_envelope:
  assumes "fst (encryptMessage P w s p True) = Inr env"
  shows "\<exists>sk pubR privR. sendingKey s = Some sk \<and> dhKeyPair s = Some (pubR, privR) \<and>
     nonce env = randombytes_buf NPUBBYTES (nonce_src w) \<and>
     cipher env = aead_encrypt P
        (json_encode P \<lparr>content = p, timestamp = addJitter (of_int (date_now w)) (math_random w),
             counter = messagesSent s, dhKey = Some ((heap s @ [kdf_derive_from_key P 32 (messagesSent s) ''msg'' (heap s ! sk)]) ! pubR)\<rparr>)
        (nonce env) (kdf_derive_from_key P 32 (messagesSent s) ''msg'' (heap s ! sk))"
  using assms
  by (cases "sendingKey s"; cases "dhKeyPair s")
     (auto simp: encryptMessage_def deriveMessageKey_def new_buffer_def wipeKey_def Let_def)


text \<open>
  C9. Encrypting with \<open>isKeepalive\<close> set changes no field of the ratchet: the send and
  receive counters, the root key, the chain keys, the key pair, the remote key and the replay
  set are the same references as before, and every buffer that existed before holds the same
  bytes, so no rotation took place; at most one buffer (the wiped message key) is added. The
  keep-alive timer encrypts 32 bytes drawn from the random generator, and the envelope seals a
  message whose content is the bytes handed in and whose counter is the unchanged send counter.
\<close>

theorem keepalive_leaves_ratchet:
  "messagesSent (snd (encryptMessage P w s p True)) = messagesSent s
   \<and> messagesReceived (snd (encryptMessage P w s p True)) = messagesReceived s
   \<and> rootKey (snd (encryptMessage P w s p True)) = rootKey s
   \<and> sendingKey (snd (encryptMessage P w s p True)) = sendingKey s
   \<and> receivingKey (snd (encryptMessage P w s p True)) = receivingKey s
   \<and> dhKeyPair (snd (encryptMessage P w s p True)) = dhKeyPair s
   \<and> remotePublicKey (snd (encryptMessage P w s p True)) = remotePublicKey s
   \<and> seenMessages (snd (encryptMessage P w s p True)) = seenMessages s
   \<and> take (length (heap s)) (heap (snd (encryptMessage P w s p True))) = heap s
   \<and> length (heap (snd (encryptMessage P w s p True))) \<le> length (heap s) + 1
   \<and> keepAliveTick P src w s = encryptMessage P w s (Binary (randombytes_buf 32 src)) True
   \<and> length (randombytes_buf 32 src) = 32
   \<and> (\<forall>env. fst (encryptMessage P w s p True) = Inr env \<longrightarrow>
         (\<exists>m key. cipher env = aead_encrypt P (json_encode P m) (nonce env) key
            \<and> content m = p \<and> counter m = messagesSent s))"
proof -
  let ?s' = "snd (encryptMessage P w s p True)"
  have fr: "?s' = s\<lparr>heap := heap ?s'\<rparr>"
    and pre: "take (length (heap s)) (heap ?s') = heap s"
    and len: "length (heap ?s') \<le> length (heap s) + 1"
    using encryptMessage_keepalive_frame [of P w s p] by simp_all
  have f1: "messagesSent ?s' = messagesSent s" by (subst fr) simp
  have f2: "messagesReceived ?s' = messagesReceived s" by (subst fr) simp
  have f3: "rootKey ?s' = rootKey s" by (subst fr) simp
  have f4: "sendingKey ?s' = sendingKey s" by (subst fr) simp
  have f5: "receivingKey ?s' = receivingKey s" by (subst fr) simp
  have f6: "dhKeyPair ?s' = dhKeyPair s" by (subst fr) simp
  have f7: "remotePublicKey ?s' = remotePublicKey s" by (subst fr) simp
  have f8: "seenMessages ?s' = seenMessages s" by (subst fr) simp
  have tick: "keepAliveTick P src w s = encryptMessage P w s (Binary (randombytes_buf 32 src)) True"
    by (simp add: keepAliveTick_def Let_def)
  have l32: "length (randombytes_buf 32 src) = 32" by (simp add: randombytes_buf_def)
  have env: "\<forall>env. fst (encryptMessage P w s p True) = Inr env \<longrightarrow>
         (\<exists>m key. cipher env = aead_encrypt P (json_encode P m) (nonce env) key
            \<and> content m = p \<and> counter m = messagesSent s)"
  proof (intro allI impI)
    fix env assume "fst (encryptMessage P w s p True) = Inr env"
    from encryptMessage_keepalive_envelope [OF this]
    obtain sk pubR privR where
      c: "cipher env = aead_encrypt P
        (json_encode P \<lparr>content = p, timestamp = addJitter (of_int (date_now w)) (math_random w),
             counter = messagesSent s, dhKey = Some ((heap s @ [kdf_derive_from_key P 32 (messagesSent s) ''msg'' (heap s ! sk)]) ! pubR)\<rparr>)
        (nonce env) (kdf_derive_from_key P 32 (messagesSent s) ''msg'' (heap s ! sk))"
      by blast
    show "\<exists>m key. cipher env = aead_encrypt P (json_encode P m) (nonce env) key
            \<and> content m = p \<and> counter m = messagesSent s"
      by (rule exI, rule exI, rule conjI, rule c) simp
  qed
  show ?thesis using f1 f2 f3 f4 f5 f6 f7 f8 pre len tick l32 env by blast
qed

theorem keepalive_leaves_ratchet_witness:
  "fst (keepAliveTick sym_prims (\<lambda>i. 4) example_entropy example_sender)
     = Inr \<lparr>nonce = replicate 24 3,
            cipher = ([0, 3, 1], replicate 24 3,
                      \<lparr>content = Binary (replicate 32 4), timestamp = 1000, counter = 0,
                        dhKey = Some [9]\<rparr>),
            sig = ([9], [0, 3, 1], replicate 24 3,
                      \<lparr>content = Binary (replicate 32 4), timestamp = 1000, counter = 0,
                        dhKey = Some [9]\<rparr>)\<rparr>
   \<and> messagesSent (snd (keepAliveTick sym_prims (\<lambda>i. 4) example_entropy example_sender)) = 0"
proof -
  have e: "fst (encryptMessage sym_prims example_entropy example_sender
                  (Binary (randombytes_buf 32 (\<lambda>i. 4))) True)
     = Inr \<lparr>nonce = replicate 24 3,
            cipher = ([0, 3, 1], replicate 24 3,
                      \<lparr>content = Binary (replicate 32 4), timestamp = 1000, counter = 0,
                        dhKey = Some [9]\<rparr>),
            sig = ([9], [0, 3, 1], replicate 24 3,
                      \<lparr>content = Binary (replicate 32 4), timestamp = 1000, counter = 0,
                        dhKey = Some [9]\<rparr>)\<rparr>"
    by (simp add: encryptMessage_def deriveMessageKey_def new_buffer_def
        wipeKey_def Let_def example_sender_def example_entropy_def sym_prims_def
        randombytes_buf_const NPUBBYTES_def addJitter_example)
  show ?thesis
    using keepalive_leaves_ratchet [of sym_prims example_entropy example_sender
        "Binary (randombytes_buf 32 (\<lambda>i. 4))" "\<lambda>i. 4"] e
    by (simp add: example_sender_def)
qed

subsection \<open>Rotation on the hundredth send\<close>

text \<open>
  C3. With a remote public key in the store and a send counter of at least 100, a
  non-keep-alive \<open>encryptMessage\<close> rotates first: the key pair is the freshly generated
  one, the root key is the \<open>rx\<close> half of the new key agreement, both chain keys are
  derived from it, and the rotation leaves both counters at 0. The message is then sealed
  under the new sending chain with counter 0 and carries the new public key as \<open>dhKey\<close>,
  the signature is made with the new private key, and the send counter ends at 1. Every
  envelope sealed by a call that left the ratchet with the key pair it holds before the
  rotation carries the public key of that pair. So when the generated public key differs
  from the one held before, as a fresh key does, the \<open>dhKey\<close> of the new envelope differs
  from the \<open>dhKey\<close> of the previous envelope.
\<close>

theorem encryptMessage_rotates_at_100:
  assumes "remotePublicKey s = Some rp" and "rp < length (heap s)"
    and "RATCHET_MESSAGES \<le> messagesSent s"
    and "dhKeyPair s = Some (oldPub, oldPriv)"
    and "fst (kx_keypair w) \<noteq> heap s ! oldPub"
  shows "let pub = fst (kx_keypair w); priv = snd (kx_keypair w);
             rx = fst (kx_client_session_keys P pub priv (heap s ! rp));
             sk = kdf_derive_from_key P 32 1 ''sending'' rx;
             rk = kdf_derive_from_key P 32 2 ''receiving'' rx;
             n = randombytes_buf NPUBBYTES (nonce_src w);
             c = aead_encrypt P
                   (json_encode P \<lparr>content = p,
                       timestamp = addJitter (of_int (date_now w)) (math_random w),
                       counter = 0, dhKey = Some pub\<rparr>)
                   n (kdf_derive_from_key P 32 0 ''msg'' sk);
             s' = snd (encryptMessage P w s p False)
         in fst (encryptMessage P w s p False) = Inr \<lparr>nonce = n, cipher = c, sig = sign_detached P c priv\<rparr>
          \<and> messagesSent (snd (rotateRatchet P (kx_keypair w) s)) = 0
          \<and> messagesReceived (snd (rotateRatchet P (kx_keypair w) s)) = 0
          \<and> deref s' (map_option fst (dhKeyPair s')) = Some pub
          \<and> deref s' (map_option snd (dhKeyPair s')) = Some priv
          \<and> deref s' (rootKey s') = Some rx
          \<and> deref s' (sendingKey s') = Some sk
          \<and> deref s' (receivingKey s') = Some rk
          \<and> messagesSent s' = 1
          \<and> messagesReceived s' = 0
          \<and> Some pub \<noteq> Some (heap s ! oldPub)
          \<and> (\<forall>w0 s0 p0 ka0 env0 s1.
                valid_refs s0 \<and> encryptMessage P w0 s0 p0 ka0 = (Inr env0, s1)
                \<and> dhKeyPair s1 = dhKeyPair s \<and> heap s1 ! oldPub = heap s ! oldPub
                \<longrightarrow> (\<exists>cnt key. cipher env0 = aead_encrypt P
                        (json_encode P \<lparr>content = p0,
                            timestamp = addJitter (of_int (date_now w0)) (math_random w0),
                            counter = cnt, dhKey = Some (heap s ! oldPub)\<rparr>)
                        (nonce env0) key))"
proof -
  have prev: "\<exists>cnt key. cipher env0 = aead_encrypt P
                        (json_encode P \<lparr>content = p0,
                            timestamp = addJitter (of_int (date_now w0)) (math_random w0),
                            counter = cnt, dhKey = Some (heap s ! oldPub)\<rparr>)
                        (nonce env0) key"
    if h: "valid_refs s0 \<and> encryptMessage P w0 s0 p0 ka0 = (Inr env0, s1)
           \<and> dhKeyPair s1 = dhKeyPair s \<and> heap s1 ! oldPub = heap s ! oldPub"
    for w0 s0 p0 ka0 env0 s1
  proof -
    from h have e: "encryptMessage P w0 s0 p0 ka0 = (Inr env0, s1)" and wf: "valid_refs s0"
      and same: "dhKeyPair s1 = Some (oldPub, oldPriv)" "heap s1 ! oldPub = heap s ! oldPub"
      using assms(4) by simp_all
    from encryptMessage_sealed [OF e wf] obtain sk pubR privR where
      kp: "dhKeyPair s1 = Some (pubR, privR)" and
      env: "env0 = (let cnt = (if ka0 then messagesSent s1 else messagesSent s1 - 1);
                n = randombytes_buf NPUBBYTES (nonce_src w0);
                c = aead_encrypt P
                      (json_encode P \<lparr>content = p0,
                          timestamp = addJitter (of_int (date_now w0)) (math_random w0),
                          counter = cnt, dhKey = Some (heap s1 ! pubR)\<rparr>)
                      n (kdf_derive_from_key P 32 cnt ''msg'' (heap s1 ! sk))
            in \<lparr>nonce = n, cipher = c, sig = sign_detached P c (heap s1 ! privR)\<rparr>)"
      by blast
    have p: "pubR = oldPub" using kp same(1) by simp
    show ?thesis
      by (rule exI [of _ "if ka0 then messagesSent s1 else messagesSent s1 - 1"],
          rule exI [of _ "kdf_derive_from_key P 32
              (if ka0 then messagesSent s1 else messagesSent s1 - 1) ''msg'' (heap s1 ! sk)"])
         (simp add: env Let_def p same(2))
  qed
  have main: "encryptMessage P w s p False = (let pub = fst (kx_keypair w); priv = snd (kx_keypair w);
         sharedSecret = kx_client_session_keys P pub priv (heap s ! rp);
         rx = fst sharedSecret;
         sk = kdf_derive_from_key P 32 1 ''sending'' rx;
         rk = kdf_derive_from_key P 32 2 ''receiving'' rx;
         mk = kdf_derive_from_key P 32 0 ''msg'' sk;
         n = randombytes_buf NPUBBYTES (nonce_src w);
         c = aead_encrypt P
               (json_encode P \<lparr>content = p,
                   timestamp = addJitter (of_int (date_now w)) (math_random w),
                   counter = 0, dhKey = Some pub\<rparr>) n mk
     in (Inr \<lparr>nonce = n, cipher = c, sig = sign_detached P c priv\<rparr>,
         s\<lparr>heap := heap s @ [pub, priv, rx, snd sharedSecret, sk, rk, replicate (length mk) 0],
           rootKey := Some (length (heap s) + 2), sendingKey := Some (length (heap s) + 4),
           receivingKey := Some (length (heap s) + 5),
           dhKeyPair := Some (length (heap s), length (heap s) + 1),
           messagesSent := 1, messagesReceived := 0\<rparr>))"
    by (rule encryptMessage_rotation [OF assms(1-3)])
  have rot: "messagesSent (snd (rotateRatchet P (kx_keypair w) s)) = 0
     \<and> messagesReceived (snd (rotateRatchet P (kx_keypair w) s)) = 0"
    using rotateRatchet_known_remote [OF assms(1,2), of P "fst (kx_keypair w)" "snd (kx_keypair w)"]
    by (simp add: Let_def)
  show ?thesis
    unfolding main using rot assms(5) prev
    by (simp add: Let_def deref_def nth_append)
qed


theorem encryptMessage_rotates_at_100_witness:
  "remotePublicKey example_sender_100 = Some 5
   \<and> RATCHET_MESSAGES \<le> messagesSent example_sender_100
   \<and> deref example_sender_100 (map_option fst (dhKeyPair example_sender_100)) = Some [9]
   \<and> fst (kx_keypair example_entropy) = [7]
   \<and> fst (encryptMessage sym_prims example_entropy example_sender_100 (Text ''hi'') False)
       = Inr \<lparr>nonce = replicate 24 3,
              cipher = ([0, 3, 1, 0, 7, 7, 5], replicate 24 3,
                        \<lparr>content = Text ''hi'', timestamp = 1000, counter = 0, dhKey = Some [7]\<rparr>),
              sig = ([7], [0, 3, 1, 0, 7, 7, 5], replicate 24 3,
                        \<lparr>content = Text ''hi'', timestamp = 1000, counter = 0, dhKey = Some [7]\<rparr>)\<rparr>
   \<and> messagesSent (snd (encryptMessage sym_prims example_entropy example_sender_100 (Text ''hi'') False)) = 1
   \<and> valid_refs example_sender
   \<and> fst (encryptMessage sym_prims example_entropy example_sender (Text ''hi'') False)
       = Inr example_envelope
   \<and> (\<exists>cnt key. cipher example_envelope
         = (key, nonce example_envelope,
            \<lparr>content = Text ''hi'', timestamp = 1000, counter = cnt, dhKey = Some [9]\<rparr>))"
proof -
  have ex: "encryptMessage sym_prims example_entropy example_sender (Text ''hi'') False
     = (Inr example_envelope,
        example_sender\<lparr>heap := heap example_sender @ [replicate 3 0], messagesSent := 1\<rparr>)"
    by (simp add: run_defs eval_nat_numeral)
  have wf: "valid_refs example_sender"
    by (simp add: valid_refs_def example_sender_def)
  note t = encryptMessage_rotates_at_100 [where s = example_sender_100 and rp = 5
      and oldPub = 3 and oldPriv = 4 and w = example_entropy and P = sym_prims
      and p = "Text ''hi''", unfolded Let_def]
  have h: "remotePublicKey example_sender_100 = Some 5" "5 < length (heap example_sender_100)"
    "RATCHET_MESSAGES \<le> messagesSent example_sender_100"
    "dhKeyPair example_sender_100 = Some (3, 4)"
    "fst (kx_keypair example_entropy) \<noteq> heap example_sender_100 ! 3"
    by (simp_all add: example_sender_100_def example_sender_def example_entropy_def
        RATCHET_MESSAGES_def)
  note c = t [OF h]
  from c have prev: "\<exists>cnt key. cipher example_envelope = aead_encrypt sym_prims
        (json_encode sym_prims \<lparr>content = Text ''hi'',
            timestamp = addJitter (of_int (date_now example_entropy))
                          (math_random example_entropy),
            counter = cnt, dhKey = Some (heap example_sender_100 ! 3)\<rparr>)
        (nonce example_envelope) key"
    using wf ex
    by (elim conjE allE [of _ example_entropy] allE [of _ example_sender]
          allE [of _ "Text ''hi''"] allE [of _ False] allE [of _ example_envelope]
          allE [of _ "example_sender\<lparr>heap := heap example_sender @ [replicate 3 0],
                        messagesSent := 1\<rparr>"])
       (simp add: example_sender_100_def example_sender_def)
  from c prev h wf ex show ?thesis
    by (simp add: example_sender_100_def example_sender_def example_entropy_def sym_prims_def
        RATCHET_MESSAGES_def randombytes_buf_const NPUBBYTES_def addJitter_example deref_def Let_def)
qed

subsection \<open>Round trip\<close>





text \<open>
  The amended statement says nothing about a receiver that mirrors the sender's state before
  a call that rotates first. On the example with both counters at 100 the envelope is signed
  and sealed with the new keys, and that receiver rejects its signature.
\<close>

lemma rotating_send_example:
  "deref example_receiver_100 (receivingKey example_receiver_100)
       = deref example_sender_100 (sendingKey example_sender_100)
   \<and> messagesReceived example_receiver_100 = messagesSent example_sender_100
   \<and> fst (decryptMessage sym_prims ([8], [8]) example_receiver_100
            (projr (fst (encryptMessage sym_prims example_entropy example_sender_100
                           (Text ''hi'') False))))
       = Inl InvalidSignature"
  by (simp add: example_sender_100_def example_receiver_100_def run_defs)

subsection \<open>Replay\<close>

lemma decryptMessage_success:
  assumes "fst (decryptMessage P kp s e) = Inr c"
  shows "\<exists>rp rk pt m. remotePublicKey s = Some rp
     \<and> sign_verify_detached P (sig e) (cipher e) (heap s ! rp)
     \<and> receivingKey s = Some rk
     \<and> aead_decrypt P (cipher e) (nonce e)
          (kdf_derive_from_key P 32 (messagesReceived s) ''msg'' (heap s ! rk)) = Some pt
     \<and> json_decode P pt = Some m \<and> c = content m
     \<and> (counter m, timestamp m) \<notin> seenMessages s
     \<and> (counter m, timestamp m) \<in> seenMessages (snd (decryptMessage P kp s e))"
  using assms
  by (auto simp: decryptMessage_def deriveMessageKey_def new_buffer_def Let_def
      split: option.splits if_splits prod.splits sum.splits dest: rotateRatchet_seen_eq)


lemma decryptMessage_wrong_key:
  assumes "remotePublicKey r = Some rp"
    and "receivingKey r = Some rk"
    and "aead_decrypt P (cipher e) (nonce e)
          (kdf_derive_from_key P 32 (messagesReceived r) ''msg'' (heap r ! rk)) = None"
  shows "decryptMessage P kp r e =
     (if sign_verify_detached P (sig e) (cipher e) (heap r ! rp)
      then (Inl DecryptionFailed,
            r\<lparr>heap := heap r @ [kdf_derive_from_key P 32 (messagesReceived r) ''msg'' (heap r ! rk)]\<rparr>)
      else (Inl InvalidSignature, r))"
  using assms
  by (simp add: decryptMessage_def deriveMessageKey_Some Let_def)







text \<open>
  The amended statement leaves open which error an accepted envelope meets when it arrives
  again right after its acceptance. On the example it is the decryption error: the message
  key is derived from the receive counter, which the acceptance has advanced to 1.
\<close>

lemma resubmitted_envelope_example:
  "fst (decryptMessage sym_prims ([8], [8]) example_receiver example_envelope)
       = Inr (Text ''hi'')
   \<and> messagesReceived
         (snd (decryptMessage sym_prims ([8], [8]) example_receiver example_envelope)) = 1
   \<and> fst (decryptMessage sym_prims ([8], [8])
             (snd (decryptMessage sym_prims ([8], [8]) example_receiver example_envelope))
             example_envelope)
       = Inl DecryptionFailed"
  by (simp add: run_defs)

subsection \<open>Key derivation from the receive counter\<close>

lemma sym_prims_kdf_counter_injective: "kdf_counter_injective sym_prims"
  by (auto simp: kdf_counter_injective_def sym_prims_def dest: arg_cong [where f = length])

text \<open>
  C10. Whenever \<open>decryptMessage\<close> returns content, the ciphertext opened under the key
  derived from the receiver's stored receiving chain key and its own receive counter; the
  counter inside the message takes no part in it (it only forms the replay pair). Hence, for
  primitives where a ciphertext opens under no key but its own and different counters give
  different message keys, an envelope sealed under the receiver's chain key with a counter
  other than the receiver's current one is rejected, for its signature or at decryption. It
  is neither buffered nor re-keyed: counters, key fields and replay set are unchanged, and the
  only new buffer is the message key derived for the failed attempt.
\<close>

theorem message_key_from_receive_counter:
  "(\<forall>c. fst (decryptMessage P kp r e) = Inr c
      \<longrightarrow> (\<exists>rk pt m.
             receivingKey r = Some rk
             \<and> aead_decrypt P (cipher e) (nonce e)
                  (kdf_derive_from_key P 32 (messagesReceived r) ''msg'' (heap r ! rk)) = Some pt
             \<and> json_decode P pt = Some m \<and> c = content m))
   \<and> (\<forall>rp rk pt c0.
         aead_key_binding P \<and> kdf_counter_injective P
         \<and> remotePublicKey r = Some rp \<and> receivingKey r = Some rk
         \<and> cipher e = aead_encrypt P pt (nonce e)
                         (kdf_derive_from_key P 32 c0 ''msg'' (heap r ! rk))
         \<and> messagesReceived r \<noteq> c0
      \<longrightarrow> decryptMessage P kp r e =
            (if sign_verify_detached P (sig e) (cipher e) (heap r ! rp)
             then (Inl DecryptionFailed,
                   r\<lparr>heap := heap r
                        @ [kdf_derive_from_key P 32 (messagesReceived r) ''msg'' (heap r ! rk)]\<rparr>)
             else (Inl InvalidSignature, r)))"
proof (intro conjI allI impI)
  fix c
  assume "fst (decryptMessage P kp r e) = Inr c"
  from decryptMessage_success [OF this]
  show "\<exists>rk pt m.
             receivingKey r = Some rk
             \<and> aead_decrypt P (cipher e) (nonce e)
                  (kdf_derive_from_key P 32 (messagesReceived r) ''msg'' (heap r ! rk)) = Some pt
             \<and> json_decode P pt = Some m \<and> c = content m"
    by blast
next
  fix rp rk pt c0
  assume H: "aead_key_binding P \<and> kdf_counter_injective P
         \<and> remotePublicKey r = Some rp \<and> receivingKey r = Some rk
         \<and> cipher e = aead_encrypt P pt (nonce e)
                         (kdf_derive_from_key P 32 c0 ''msg'' (heap r ! rk))
         \<and> messagesReceived r \<noteq> c0"
  let ?k = "kdf_derive_from_key P 32 (messagesReceived r) ''msg'' (heap r ! rk)"
  let ?kc = "kdf_derive_from_key P 32 c0 ''msg'' (heap r ! rk)"
  have "?k \<noteq> ?kc"
    using H unfolding kdf_counter_injective_def by blast
  then have "aead_decrypt P (aead_encrypt P pt (nonce e) ?kc) (nonce e) ?k = None"
    using H unfolding aead_key_binding_def by blast
  then have "aead_decrypt P (cipher e) (nonce e) ?k = None"
    using H by simp
  then show "decryptMessage P kp r e =
            (if sign_verify_detached P (sig e) (cipher e) (heap r ! rp)
             then (Inl DecryptionFailed, r\<lparr>heap := heap r @ [?k]\<rparr>)
             else (Inl InvalidSignature, r))"
    using H decryptMessage_wrong_key [of r rp rk P e kp] by blast
qed

theorem message_key_from_receive_counter_witness:
  "decryptMessage sym_prims ([8], [8]) example_receiver_next example_envelope
     = (Inl DecryptionFailed,
        example_receiver_next\<lparr>heap := heap example_receiver_next @ [[1, 0, 3, 1]]\<rparr>)
   \<and> fst (decryptMessage sym_prims ([8], [8]) example_receiver example_envelope)
       = Inr (Text ''hi'')
   \<and> aead_decrypt sym_prims (cipher example_envelope) (nonce example_envelope)
        (kdf_derive_from_key sym_prims 32 (messagesReceived example_receiver) ''msg''
           (heap example_receiver ! 2))
       = Some \<lparr>content = Text ''hi'', timestamp = 1000, counter = 0, dhKey = Some [9]\<rparr>"
  using message_key_from_receive_counter [of sym_prims "([8], [8])" example_receiver_next
      example_envelope, THEN conjunct2, rule_format,
      of 5 2 "\<lparr>content = Text ''hi'', timestamp = 1000, counter = 0, dhKey = Some [9]\<rparr>" 0]
    message_key_from_receive_counter [of sym_prims "([8], [8])" example_receiver
      example_envelope, THEN conjunct1]
    sym_prims_aead_key_binding sym_prims_kdf_counter_injective
  by (simp add: example_receiver_next_def run_defs)

text \<open>
  The same for the envelopes of \<open>encryptMessage\<close> itself: a receiver that holds the
  sender's chain key but whose receive counter differs from the send counter rejects the
  envelope.
\<close>

lemma out_of_order_envelope_fails:
  assumes "aead_key_binding P" and "kdf_counter_injective P"
    and "ka \<or> messagesSent s < RATCHET_MESSAGES"
    and "sendingKey s = Some sk" and "dhKeyPair s = Some (pubR, privR)"
    and "pubR < length (heap s)" and "privR < length (heap s)"
    and "receivingKey r = Some rk" and "heap r ! rk = heap s ! sk"
    and "remotePublicKey r = Some rp"
    and "messagesReceived r \<noteq> messagesSent s"
  shows "\<exists>env s' err. encryptMessage P w s p ka = (Inr env, s')
           \<and> fst (decryptMessage P kp r env) = Inl err
           \<and> (err = InvalidSignature \<or> err = DecryptionFailed)"
proof -
  let ?m = "\<lparr>content = p, timestamp = addJitter (of_int (date_now w)) (math_random w),
            counter = messagesSent s, dhKey = Some (heap s ! pubR)\<rparr>"
  let ?mk = "kdf_derive_from_key P 32 (messagesSent s) ''msg'' (heap s ! sk)"
  let ?n = "randombytes_buf NPUBBYTES (nonce_src w)"
  let ?c = "aead_encrypt P (json_encode P ?m) ?n ?mk"
  let ?env = "\<lparr>nonce = ?n, cipher = ?c, sig = sign_detached P ?c (heap s ! privR)\<rparr>"
  have enc: "fst (encryptMessage P w s p ka) = Inr ?env"
    using encryptMessage_no_rotation [of ka s sk pubR privR P w p] assms(3-7)
    by (simp add: Let_def)
  then obtain s' where e: "encryptMessage P w s p ka = (Inr ?env, s')"
    by (cases "encryptMessage P w s p ka") simp
  have "aead_key_binding P \<and> kdf_counter_injective P
         \<and> remotePublicKey r = Some rp \<and> receivingKey r = Some rk
         \<and> cipher ?env = aead_encrypt P (json_encode P ?m) (nonce ?env)
                         (kdf_derive_from_key P 32 (messagesSent s) ''msg'' (heap r ! rk))
         \<and> messagesReceived r \<noteq> messagesSent s"
    using assms by simp
  then have "decryptMessage P kp r ?env =
            (if sign_verify_detached P (sig ?env) (cipher ?env) (heap r ! rp)
             then (Inl DecryptionFailed,
                   r\<lparr>heap := heap r
                        @ [kdf_derive_from_key P 32 (messagesReceived r) ''msg'' (heap r ! rk)]\<rparr>)
             else (Inl InvalidSignature, r))"
    using decryptMessage_wrong_key [of r rp rk P ?env kp] assms(1,2)
    unfolding aead_key_binding_def kdf_counter_injective_def
    by (metis (no_types, lifting))
  then have "\<exists>err. fst (decryptMessage P kp r ?env) = Inl err
      \<and> (err = InvalidSignature \<or> err = DecryptionFailed)"
    by (cases "sign_verify_detached P (sig ?env) (cipher ?env) (heap r ! rp)") simp_all
  then show ?thesis using e by blast
qed

end
